theory Spec2Isabelle
  imports Main "HOL-Library.Multiset"
begin

section \<open>Values\<close>

text \<open>
  The backend is one file, \<^verbatim>\<open>src/backend/index.js\<close>: an express application whose
  handlers each run one or two SQL statements through \<^verbatim>\<open>db.query\<close> and answer with a
  status code and a JSON body. The model below follows the handlers line by line. The
  routes \<^verbatim>\<open>/carouselimages\<close> and \<^verbatim>\<open>GET /user\<close> are left out: no property below concerns
  them.

  A request field is modelled at the type of the column it is written to, wrapped in
  \<open>option\<close>: \<open>None\<close> is a field that is absent from the body (JavaScript
  \<^verbatim>\<open>undefined\<close>) or \<^verbatim>\<open>null\<close>; the driver sends both as SQL NULL. A body field of
  another JSON type than its column (a number where a text is stored, a text that is not
  a timestamp) is outside the model; the store rejects most of them, which the handlers
  answer like any other store failure.

  Timestamps are instants counted in microseconds, the resolution of the store.
\<close>

type_synonym timestamp = int

text \<open>
  \<^verbatim>\<open>!x\<close> for a text field: true for an absent field and for the empty string.
\<close>

definition falsy :: "string option \<Rightarrow> bool" where
  "falsy x = (x = None \<or> x = Some [])"

text \<open>
  \<^verbatim>\<open>!x\<close> for a timestamp field, which arrives as a non-empty text when it is present.
\<close>

definition falsy_time :: "timestamp option \<Rightarrow> bool" where
  "falsy_time x = (x = None)"

subsection \<open>Password hashes (bcryptjs)\<close>

text \<open>
  The bcryptjs library is not part of the repository. Its hashes are modelled
  symbolically: the text \<^verbatim>\<open>$2a$<cost>$<salt><digest>\<close> that \<^verbatim>\<open>bcrypt.hash\<close> returns is the
  constructor \<open>BcryptHash\<close> applied to the cost, the salt and the bytes that were hashed
  (bcrypt reads at most 72 bytes of its input). The digest is taken to be perfect: two
  hashes agree only when their inputs do. The salt, which the library draws at random, is
  an argument. A password column can also hold a text that is no hash at all,
  \<open>Plaintext\<close>.
\<close>

datatype pwtext = Plaintext string | BcryptHash nat string string

text \<open>
  \<^verbatim>\<open>bcrypt.hash(password, rounds)\<close>; it throws (\<open>None\<close>) when the password is not a string.
\<close>

definition bcrypt_hash :: "string option \<Rightarrow> nat \<Rightarrow> string \<Rightarrow> pwtext option" where
  "bcrypt_hash password rounds salt =
     (case password of
        None \<Rightarrow> None
      | Some p \<Rightarrow> Some (BcryptHash rounds salt (take 72 p)))"

text \<open>
  \<^verbatim>\<open>bcrypt.compare(password, hash)\<close>; it throws (\<open>None\<close>) when an argument is not a string,
  and answers false for a text that is not a bcrypt hash.
\<close>

definition bcrypt_compare :: "string option \<Rightarrow> pwtext option \<Rightarrow> bool option" where
  "bcrypt_compare password hash =
     (case (password, hash) of
        (Some p, Some (BcryptHash rounds salt digest)) \<Rightarrow> Some (take 72 p = digest)
      | (Some p, Some (Plaintext s)) \<Rightarrow> Some False
      | _ \<Rightarrow> None)"

subsection \<open>Session tokens (jsonwebtoken)\<close>

text \<open>
  The jsonwebtoken library is not part of the repository either. A signed token is
  modelled symbolically as its payload together with the key it was signed with; the
  payload is what \<^verbatim>\<open>jwt.sign\<close> is given, \<open>userId\<close> and \<open>email\<close>, and the two claims the
  library adds, the issuance time \<open>iat\<close> and the expiry \<open>exp\<close>, in seconds.
\<close>

datatype token =
  Token (claims_userId: int) (claims_email: "string option")
        (claims_iat: int) (claims_exp: int) (signed_with: string)

text \<open>
  \<^verbatim>\<open>expiresIn: "1h"\<close>, in seconds.
\<close>

definition expiresIn :: int where
  "expiresIn = 3600"

text \<open>
  \<^verbatim>\<open>jwt.sign({ userId, email }, jwtSecretKey, { expiresIn: "1h" })\<close> at the time \<open>clock\<close>
  (seconds). The library throws (\<open>None\<close>) when the key is missing or empty; the key is
  \<^verbatim>\<open>process.env.SECRET\<close>, which may be unset.
\<close>

definition jwt_sign :: "int \<Rightarrow> string option \<Rightarrow> string option \<Rightarrow> int \<Rightarrow> token option" where
  "jwt_sign userId email jwtSecretKey clock =
     (case jwtSecretKey of
        None \<Rightarrow> None
      | Some k \<Rightarrow>
          if k = [] then None
          else Some (Token userId email clock (clock + expiresIn) k))"

text \<open>
  The value of the \<^verbatim>\<open>Authorization\<close> header is modelled as the list of the pieces between
  its spaces, which is what \<^verbatim>\<open>authHeader.split(" ")\<close> computes; a piece is an ordinary
  word or the compact text of a token (which contains no space).
\<close>

datatype hpart = Word string | Jwt token

text \<open>
  \<^verbatim>\<open>jwt.verify(token, jwtSecretKey, callback)\<close> at the time \<open>clock\<close>: \<open>None\<close> is a call
  of the callback with an error (a text that is no token, a missing key, a signature made
  with another key, an expired token), \<open>Some\<close> the decoded payload. A token is
  expired from the second \<open>exp\<close> on.
\<close>

definition jwt_verify :: "hpart \<Rightarrow> string option \<Rightarrow> int \<Rightarrow> token option" where
  "jwt_verify tok jwtSecretKey clock =
     (case tok of
        Word w \<Rightarrow> None
      | Jwt t \<Rightarrow>
          (case jwtSecretKey of
             None \<Rightarrow> None
           | Some k \<Rightarrow>
               if k = [] \<or> signed_with t \<noteq> k then None
               else if clock \<ge> claims_exp t then None
               else Some t))"

section \<open>The store\<close>

text \<open>
  Modelled from the spec: the schema of the tables \<^verbatim>\<open>logindata\<close> and \<^verbatim>\<open>post\<close>, which no
  file of the repository declares. Section 3 of the specification gives the columns:
  integer identifiers assigned on creation, text columns, two timestamps and two booleans.
  Every column but the identifiers and the owner can hold NULL (\<open>None\<close>).
\<close>

record logindata_row =
  logindata_id :: int
  logindata_email :: "string option"
  logindata_password :: "pwtext option"
  logindata_firstname :: "string option"
  logindata_lastname :: "string option"

record post_row =
  post_id :: int
  post_user_id :: int
  post_task :: "string option"
  post_type :: "string option"
  post_timeofentry :: "timestamp option"
  post_completestatus :: "bool option"
  post_remindertime :: "timestamp option"
  post_currentstatus :: "bool option"

text \<open>
  The state behind the connection \<^verbatim>\<open>db\<close>: the rows of the two tables, the next value
  of each identifier sequence, whether the store executes statements at all
  (\<open>available\<close>; a lost connection makes every \<^verbatim>\<open>db.query\<close> reject), and the number of
  statements sent so far (\<open>issued\<close>), which no handler reads.
\<close>

record store =
  logindata :: "logindata_row list"
  post :: "post_row list"
  logindata_id_seq :: int
  post_id_seq :: int
  available :: bool
  issued :: nat

text \<open>
  \<^verbatim>\<open>await db.query(...)\<close>: the statement is sent. An available store executes it and
  returns its rows, unless it raises an error on the statement itself (the statement is
  \<open>None\<close> of the state); in that case, and when the store is not available, the promise
  rejects (\<open>None\<close>) and the tables stay as they were.
\<close>

definition query ::
  "(store \<Rightarrow> ('a list \<times> store) option) \<Rightarrow> store \<Rightarrow> 'a list option \<times> store" where
  "query stmt db =
     (let sent = db\<lparr>issued := Suc (issued db)\<rparr>
      in if available db
         then (case stmt sent of
                 None \<Rightarrow> (None, sent)
               | Some (rows, db') \<Rightarrow> (Some rows, db'))
         else (None, sent))"

subsection \<open>SQL conditions\<close>

text \<open>
  Conditions are three-valued: a comparison with NULL is unknown (\<open>None\<close>), and
  \<^verbatim>\<open>WHERE\<close> keeps the rows whose condition is true.
\<close>

definition sql_eq :: "'a option \<Rightarrow> 'a option \<Rightarrow> bool option" where
  "sql_eq a b =
     (case a of
        None \<Rightarrow> None
      | Some x \<Rightarrow> (case b of None \<Rightarrow> None | Some y \<Rightarrow> Some (x = y)))"

definition sql_and :: "bool option \<Rightarrow> bool option \<Rightarrow> bool option" where
  "sql_and p q =
     (if p = Some False \<or> q = Some False then Some False
      else if p = Some True \<and> q = Some True then Some True
      else None)"

definition sql_minus :: "timestamp option \<Rightarrow> timestamp option \<Rightarrow> int option" where
  "sql_minus a b =
     (case a of
        None \<Rightarrow> None
      | Some x \<Rightarrow> (case b of None \<Rightarrow> None | Some y \<Rightarrow> Some (x - y)))"

definition sql_lt :: "int option \<Rightarrow> int option \<Rightarrow> bool option" where
  "sql_lt a b =
     (case a of
        None \<Rightarrow> None
      | Some x \<Rightarrow> (case b of None \<Rightarrow> None | Some y \<Rightarrow> Some (x < y)))"

definition is_true :: "bool option \<Rightarrow> bool" where
  "is_true p = (p = Some True)"

text \<open>
  \<^verbatim>\<open>INTERVAL '30 minutes'\<close>, in microseconds.
\<close>

definition interval_30_minutes :: int where
  "interval_30_minutes = 30 * 60 * 1000000"

subsection \<open>ORDER BY timeofentry DESC\<close>

text \<open>
  In a descending order the store puts NULL first. \<open>ts_ge a b\<close>: a row with the key
  \<open>a\<close> may stand before a row with the key \<open>b\<close>. The store does not fix the order of
  rows with equal keys; the model sorts by insertion, which is one of the orders the
  store may return.
\<close>

definition ts_ge :: "timestamp option \<Rightarrow> timestamp option \<Rightarrow> bool" where
  "ts_ge a b =
     (case a of
        None \<Rightarrow> True
      | Some x \<Rightarrow> (case b of None \<Rightarrow> False | Some y \<Rightarrow> y \<le> x))"

fun insert_desc :: "post_row \<Rightarrow> post_row list \<Rightarrow> post_row list" where
  "insert_desc r [] = [r]"
| "insert_desc r (x # xs) =
     (if ts_ge (post_timeofentry r) (post_timeofentry x) then r # x # xs
      else x # insert_desc r xs)"

definition order_by_timeofentry_desc :: "post_row list \<Rightarrow> post_row list" where
  "order_by_timeofentry_desc rows = foldr insert_desc rows []"

subsection \<open>The statements\<close>

text \<open>
  \<^verbatim>\<open>SELECT * FROM logindata WHERE email = $1\<close>
\<close>

definition select_logindata_by_email ::
  "string option \<Rightarrow> store \<Rightarrow> (logindata_row list \<times> store) option" where
  "select_logindata_by_email email db =
     Some ([u \<leftarrow> logindata db. is_true (sql_eq (logindata_email u) email)], db)"

text \<open>
  A value of a result row, and the columns of \<^verbatim>\<open>logindata\<close> by name.
\<close>

datatype sqlval = SqlNull | SqlInt int | SqlText string | SqlPassword pwtext

definition text_val :: "string option \<Rightarrow> sqlval" where
  "text_val x = (case x of None \<Rightarrow> SqlNull | Some s \<Rightarrow> SqlText s)"

definition password_val :: "pwtext option \<Rightarrow> sqlval" where
  "password_val x = (case x of None \<Rightarrow> SqlNull | Some h \<Rightarrow> SqlPassword h)"

definition logindata_column :: "string \<Rightarrow> logindata_row \<Rightarrow> sqlval option" where
  "logindata_column c u =
     (if c = ''id'' then Some (SqlInt (logindata_id u))
      else if c = ''email'' then Some (text_val (logindata_email u))
      else if c = ''password'' then Some (password_val (logindata_password u))
      else if c = ''firstname'' then Some (text_val (logindata_firstname u))
      else if c = ''lastname'' then Some (text_val (logindata_lastname u))
      else None)"

text \<open>
  \<^verbatim>\<open>RETURNING c1, ..., cn\<close>: the row as the object the driver builds, one key for each
  column named.
\<close>

definition returning :: "string list \<Rightarrow> logindata_row \<Rightarrow> (string \<times> sqlval) list" where
  "returning cols u =
     concat (map (\<lambda>c. case logindata_column c u of None \<Rightarrow> [] | Some v \<Rightarrow> [(c, v)]) cols)"

text \<open>
  \<^verbatim>\<open>INSERT INTO logindata (email, password, firstname, lastname) VALUES ($1, $2, $3, $4)
  RETURNING id, email, firstname, lastname\<close>
\<close>

definition insert_logindata ::
  "string option \<Rightarrow> pwtext option \<Rightarrow> string option \<Rightarrow> string option \<Rightarrow> store
     \<Rightarrow> ((string \<times> sqlval) list list \<times> store) option" where
  "insert_logindata email hashedPassword firstname lastname db =
     (let u = \<lparr>logindata_id = logindata_id_seq db,
                logindata_email = email,
                logindata_password = hashedPassword,
                logindata_firstname = firstname,
                logindata_lastname = lastname\<rparr>
      in Some ([returning [''id'', ''email'', ''firstname'', ''lastname''] u],
               db\<lparr>logindata := logindata db @ [u],
                  logindata_id_seq := logindata_id_seq db + 1\<rparr>))"

text \<open>
  \<^verbatim>\<open>SELECT * FROM post WHERE user_id = $1 AND completestatus = FALSE AND
  currentstatus = FALSE ORDER BY timeofentry DESC\<close>
\<close>

definition select_pending :: "int \<Rightarrow> store \<Rightarrow> (post_row list \<times> store) option" where
  "select_pending userId db =
     Some (order_by_timeofentry_desc
             [r \<leftarrow> post db.
                is_true (sql_and (sql_and (sql_eq (Some (post_user_id r)) (Some userId))
                                          (sql_eq (post_completestatus r) (Some False)))
                                 (sql_eq (post_currentstatus r) (Some False)))],
           db)"

text \<open>
  \<^verbatim>\<open>SELECT * FROM post WHERE user_id = $1 AND completestatus = TRUE AND
  currentstatus = FALSE ORDER BY timeofentry DESC\<close>
\<close>

definition select_completed :: "int \<Rightarrow> store \<Rightarrow> (post_row list \<times> store) option" where
  "select_completed userId db =
     Some (order_by_timeofentry_desc
             [r \<leftarrow> post db.
                is_true (sql_and (sql_and (sql_eq (Some (post_user_id r)) (Some userId))
                                          (sql_eq (post_completestatus r) (Some True)))
                                 (sql_eq (post_currentstatus r) (Some False)))],
           db)"

text \<open>
  \<^verbatim>\<open>SELECT * FROM post WHERE user_id = $1 AND remindertime - CURRENT_TIMESTAMP <
  INTERVAL '30 minutes' ORDER BY timeofentry DESC LIMIT 5\<close>, run at the instant
  \<open>current_timestamp\<close>.
\<close>

definition select_reminders ::
  "int \<Rightarrow> timestamp \<Rightarrow> store \<Rightarrow> (post_row list \<times> store) option" where
  "select_reminders userId current_timestamp db =
     Some (take 5
             (order_by_timeofentry_desc
                [r \<leftarrow> post db.
                   is_true (sql_and (sql_eq (Some (post_user_id r)) (Some userId))
                                    (sql_lt (sql_minus (post_remindertime r)
                                                       (Some current_timestamp))
                                            (Some interval_30_minutes)))]),
           db)"

text \<open>
  \<^verbatim>\<open>INSERT INTO post (user_id, task, type, timeofentry, completestatus, remindertime,
  currentstatus) VALUES ($1, $2, $3, $4, $5, $6, $7) RETURNING *\<close>. Every column but
  \<^verbatim>\<open>id\<close> is given a value, so no default of the table applies.
\<close>

definition insert_post ::
  "int \<Rightarrow> string option \<Rightarrow> string option \<Rightarrow> timestamp option \<Rightarrow> bool option
     \<Rightarrow> timestamp option \<Rightarrow> bool option \<Rightarrow> store \<Rightarrow> (post_row list \<times> store) option" where
  "insert_post userId task type timeofentry completestatus remindertime currentstatus db =
     (let r = \<lparr>post_id = post_id_seq db,
                post_user_id = userId,
                post_task = task,
                post_type = type,
                post_timeofentry = timeofentry,
                post_completestatus = completestatus,
                post_remindertime = remindertime,
                post_currentstatus = currentstatus\<rparr>
      in Some ([r], db\<lparr>post := post db @ [r], post_id_seq := post_id_seq db + 1\<rparr>))"

text \<open>
  The parameter \<^verbatim>\<open>$3\<close> of the three statements below is \<^verbatim>\<open>req.params.id\<close>, the segment
  \<^verbatim>\<open>:id\<close> of the path, a text. The store compares it with the integer column \<^verbatim>\<open>id\<close>: it
  reads the text as an integer, and raises an error on the statement when the text is
  not one. \<open>id'\<close> is \<open>Some i\<close> for a segment that reads as the integer \<open>i\<close> and
  \<open>None\<close> for any other segment.

  \<^verbatim>\<open>WHERE id = $3 AND user_id = $4\<close>, for the integer \<open>i\<close>:
\<close>

definition owned :: "int \<Rightarrow> int \<Rightarrow> post_row \<Rightarrow> bool" where
  "owned i userId r =
     is_true (sql_and (sql_eq (Some (post_id r)) (Some i))
                      (sql_eq (Some (post_user_id r)) (Some userId)))"

text \<open>
  \<^verbatim>\<open>UPDATE post SET completestatus = $1, currentstatus = $2 WHERE id = $3 AND
  user_id = $4 RETURNING *\<close>
\<close>

definition update_status ::
  "bool option \<Rightarrow> bool option \<Rightarrow> int option \<Rightarrow> int \<Rightarrow> store
     \<Rightarrow> (post_row list \<times> store) option" where
  "update_status completestatus currentstatus id' userId db =
     (case id' of
        None \<Rightarrow> None
      | Some i \<Rightarrow>
          (let set_cols = (\<lambda>r. r\<lparr>post_completestatus := completestatus,
                                   post_currentstatus := currentstatus\<rparr>)
           in Some ([set_cols r. r \<leftarrow> post db, owned i userId r],
                    db\<lparr>post := map (\<lambda>r. if owned i userId r then set_cols r else r)
                                     (post db)\<rparr>)))"

text \<open>
  \<^verbatim>\<open>UPDATE post SET task = $1, type = $2 WHERE id = $3 AND user_id = $4 RETURNING *\<close>
\<close>

definition update_content ::
  "string option \<Rightarrow> string option \<Rightarrow> int option \<Rightarrow> int \<Rightarrow> store
     \<Rightarrow> (post_row list \<times> store) option" where
  "update_content editedtask editedtype id' userId db =
     (case id' of
        None \<Rightarrow> None
      | Some i \<Rightarrow>
          (let set_cols = (\<lambda>r. r\<lparr>post_task := editedtask, post_type := editedtype\<rparr>)
           in Some ([set_cols r. r \<leftarrow> post db, owned i userId r],
                    db\<lparr>post := map (\<lambda>r. if owned i userId r then set_cols r else r)
                                     (post db)\<rparr>)))"

section \<open>Responses\<close>

text \<open>
  The JSON bodies the handlers send: \<^verbatim>\<open>{ error: message }\<close>; the answer of a registration,
  \<^verbatim>\<open>{ success: true, message: ..., user: result.rows[0] }\<close> (\<open>None\<close> when that row is
  \<^verbatim>\<open>undefined\<close>); the answer of a login, \<^verbatim>\<open>{ success: true, message: ..., token,
  firstname }\<close>; an array of task rows; one task row (\<open>None\<close> when it is \<^verbatim>\<open>undefined\<close>).
\<close>

datatype payload =
  Error string
| Registered "(string \<times> sqlval) list option"
| LoggedIn token "string option"
| Rows "post_row list"
| Row "post_row option"

record response =
  status :: nat
  body :: payload

definition respond :: "nat \<Rightarrow> payload \<Rightarrow> response" where
  "respond code b = \<lparr>status = code, body = b\<rparr>"

text \<open>
  \<^verbatim>\<open>result.rows[0]\<close>
\<close>

definition first_row :: "'a list \<Rightarrow> 'a option" where
  "first_row rows = (case rows of [] \<Rightarrow> None | r # rest \<Rightarrow> Some r)"

section \<open>The middleware\<close>

text \<open>
  \<^verbatim>\<open>validateToken\<close>: the second piece of the \<^verbatim>\<open>Authorization\<close> header is the token. A
  missing header, a header without a second piece and an empty second piece are answered
  with 401; a token the library rejects with 403; otherwise the handler runs with
  \<^verbatim>\<open>req.userId\<close> and \<^verbatim>\<open>req.userEmail\<close> set from the payload (\<open>Inr\<close>).
\<close>

definition validateToken ::
  "hpart list option \<Rightarrow> string option \<Rightarrow> int \<Rightarrow> response + (int \<times> string option)" where
  "validateToken authHeader jwtSecretKey clock =
     (case authHeader of
        None \<Rightarrow> Inl (respond 401 (Error ''Access denied: No token provided''))
      | Some pieces \<Rightarrow>
          (case pieces of
             scheme # tok # rest \<Rightarrow>
               if tok = Word [] then Inl (respond 401 (Error ''Access denied: No token provided''))
               else
                 (case jwt_verify tok jwtSecretKey clock of
                    None \<Rightarrow> Inl (respond 403 (Error ''Invalid or expired token''))
                  | Some decoded \<Rightarrow> Inr (claims_userId decoded, claims_email decoded))
           | _ \<Rightarrow> Inl (respond 401 (Error ''Access denied: No token provided''))))"

text \<open>
  A route declared with the middleware, \<^verbatim>\<open>app.get(path, validateToken, handler)\<close>: the
  handler runs for the user of the token, or the middleware answers and the store is
  not reached.
\<close>

definition protected ::
  "hpart list option \<Rightarrow> string option \<Rightarrow> int \<Rightarrow> (int \<Rightarrow> store \<Rightarrow> response \<times> store)
     \<Rightarrow> store \<Rightarrow> response \<times> store" where
  "protected authHeader jwtSecretKey clock handler db =
     (case validateToken authHeader jwtSecretKey clock of
        Inl denied \<Rightarrow> (denied, db)
      | Inr (userId, userEmail) \<Rightarrow> handler userId db)"

section \<open>The handlers\<close>

text \<open>
  Each handler takes the fields it reads from the request (under the names the source
  gives them), the state of the store, and returns the response with the state after
  it. A rejected \<^verbatim>\<open>db.query\<close> and an exception of a library are caught by the handler's
  \<^verbatim>\<open>catch\<close>, which answers 500.
\<close>

text \<open>
  \<^verbatim>\<open>POST /register\<close>. \<open>salt\<close> is the salt \<^verbatim>\<open>bcrypt.hash\<close> draws.
\<close>

definition register ::
  "string option \<Rightarrow> string option \<Rightarrow> string option \<Rightarrow> string option \<Rightarrow> string \<Rightarrow> store
     \<Rightarrow> response \<times> store" where
  "register email password firstname lastname salt db =
     (if falsy email \<or> falsy password \<or> falsy firstname \<or> falsy lastname then
        (respond 400 (Error ''Email, password, firstname, and lastname are required''), db)
      else
        (case query (select_logindata_by_email email) db of
           (None, db1) \<Rightarrow> (respond 500 (Error ''Failed to register user''), db1)
         | (Some checkResult, db1) \<Rightarrow>
             if length checkResult > 0 then
               (respond 409 (Error ''Email already registered''), db1)
             else
               (case bcrypt_hash password 10 salt of
                  None \<Rightarrow> (respond 500 (Error ''Failed to register user''), db1)
                | Some hashedPassword \<Rightarrow>
                    (case query (insert_logindata email (Some hashedPassword) firstname lastname) db1 of
                       (None, db2) \<Rightarrow> (respond 500 (Error ''Failed to register user''), db2)
                     | (Some rows, db2) \<Rightarrow>
                         (respond 201 (Registered (first_row rows)), db2)))))"

text \<open>
  \<^verbatim>\<open>POST /login\<close>, at the time \<open>clock\<close> (seconds) with the key \<^verbatim>\<open>jwtSecretKey\<close>.
\<close>

definition login ::
  "string option \<Rightarrow> string option \<Rightarrow> string option \<Rightarrow> int \<Rightarrow> store \<Rightarrow> response \<times> store" where
  "login email password jwtSecretKey clock db =
     (if falsy email \<or> falsy password then
        (respond 400 (Error ''Email and password are required''), db)
      else
        (case query (select_logindata_by_email email) db of
           (None, db1) \<Rightarrow> (respond 500 (Error ''Failed to log in''), db1)
         | (Some rows, db1) \<Rightarrow>
             (case rows of
                [] \<Rightarrow> (respond 404 (Error ''User not found''), db1)
              | user # rest \<Rightarrow>
                  (case bcrypt_compare password (logindata_password user) of
                     None \<Rightarrow> (respond 500 (Error ''Failed to log in''), db1)
                   | Some isPasswordValid \<Rightarrow>
                       if \<not> isPasswordValid then
                         (respond 401 (Error ''Incorrect password''), db1)
                       else
                         (case jwt_sign (logindata_id user) (logindata_email user)
                                 jwtSecretKey clock of
                            None \<Rightarrow> (respond 500 (Error ''Failed to log in''), db1)
                          | Some tok \<Rightarrow>
                              (respond 200 (LoggedIn tok (logindata_firstname user)), db1))))))"

text \<open>
  \<^verbatim>\<open>GET /tasks\<close>
\<close>

definition get_tasks :: "int \<Rightarrow> store \<Rightarrow> response \<times> store" where
  "get_tasks userId db =
     (case query (select_pending userId) db of
        (None, db1) \<Rightarrow> (respond 500 (Error ''Failed to fetch pending tasks''), db1)
      | (Some rows, db1) \<Rightarrow> (respond 200 (Rows rows), db1))"

text \<open>
  \<^verbatim>\<open>GET /taskschange\<close>
\<close>

definition get_taskschange :: "int \<Rightarrow> store \<Rightarrow> response \<times> store" where
  "get_taskschange userId db =
     (case query (select_completed userId) db of
        (None, db1) \<Rightarrow> (respond 500 (Error ''Failed to fetch completed tasks''), db1)
      | (Some rows, db1) \<Rightarrow> (respond 200 (Rows rows), db1))"

text \<open>
  \<^verbatim>\<open>POST /tasks\<close>
\<close>

definition post_tasks ::
  "int \<Rightarrow> string option \<Rightarrow> string option \<Rightarrow> timestamp option \<Rightarrow> bool option
     \<Rightarrow> timestamp option \<Rightarrow> bool option \<Rightarrow> store \<Rightarrow> response \<times> store" where
  "post_tasks userId task type timeofentry completestatus remindertime currentstatus db =
     (if falsy task \<or> falsy type \<or> falsy_time remindertime then
        (respond 400 (Error ''Task, type, and remindertime are required''), db)
      else
        (case query (insert_post userId task type timeofentry completestatus remindertime
                       currentstatus) db of
           (None, db1) \<Rightarrow> (respond 500 (Error ''Failed to add task''), db1)
         | (Some rows, db1) \<Rightarrow> (respond 201 (Row (first_row rows)), db1)))"

text \<open>
  \<^verbatim>\<open>PATCH /tasks/:id\<close> (mark as done)
\<close>

definition patch_tasks ::
  "int \<Rightarrow> int option \<Rightarrow> bool option \<Rightarrow> bool option \<Rightarrow> store \<Rightarrow> response \<times> store" where
  "patch_tasks userId id' completestatus currentstatus db =
     (case query (update_status completestatus currentstatus id' userId) db of
        (None, db1) \<Rightarrow> (respond 500 (Error ''Failed to update task status''), db1)
      | (Some rows, db1) \<Rightarrow>
          if length rows = 0 then
            (respond 404 (Error ''Task not found or unauthorized''), db1)
          else (respond 200 (Row (first_row rows)), db1))"

text \<open>
  \<^verbatim>\<open>PATCH /dtasks/:id\<close> (hide task)
\<close>

definition patch_dtasks ::
  "int \<Rightarrow> int option \<Rightarrow> bool option \<Rightarrow> bool option \<Rightarrow> store \<Rightarrow> response \<times> store" where
  "patch_dtasks userId id' completestatus currentstatus db =
     (case query (update_status completestatus currentstatus id' userId) db of
        (None, db1) \<Rightarrow> (respond 500 (Error ''Failed to update task status''), db1)
      | (Some rows, db1) \<Rightarrow>
          if length rows = 0 then
            (respond 404 (Error ''Task not found or unauthorized''), db1)
          else (respond 200 (Row (first_row rows)), db1))"

text \<open>
  \<^verbatim>\<open>PUT /tasks/:id\<close> (edit task/type)
\<close>

definition put_tasks ::
  "int \<Rightarrow> int option \<Rightarrow> string option \<Rightarrow> string option \<Rightarrow> store \<Rightarrow> response \<times> store" where
  "put_tasks userId id' editedtask editedtype db =
     (if falsy editedtask then
        (respond 400 (Error ''Task content is required''), db)
      else
        (case query (update_content editedtask editedtype id' userId) db of
           (None, db1) \<Rightarrow> (respond 500 (Error ''Failed to update task''), db1)
         | (Some rows, db1) \<Rightarrow>
             if length rows = 0 then
               (respond 404 (Error ''Task not found or unauthorized''), db1)
             else (respond 200 (Row (first_row rows)), db1)))"

text \<open>
  \<^verbatim>\<open>PATCH /taskschange/:id\<close> (undo)
\<close>

definition patch_taskschange ::
  "int \<Rightarrow> int option \<Rightarrow> bool option \<Rightarrow> bool option \<Rightarrow> store \<Rightarrow> response \<times> store" where
  "patch_taskschange userId id' completestatus currentstatus db =
     (case query (update_status completestatus currentstatus id' userId) db of
        (None, db1) \<Rightarrow> (respond 500 (Error ''Failed to undo task''), db1)
      | (Some rows, db1) \<Rightarrow>
          if length rows = 0 then
            (respond 404 (Error ''Task not found or unauthorized''), db1)
          else (respond 200 (Row (first_row rows)), db1))"

text \<open>
  \<^verbatim>\<open>GET /remindertasks\<close>, at the instant \<open>current_timestamp\<close> of the store.
\<close>

definition get_remindertasks :: "int \<Rightarrow> timestamp \<Rightarrow> store \<Rightarrow> response \<times> store" where
  "get_remindertasks userId current_timestamp db =
     (case query (select_reminders userId current_timestamp) db of
        (None, db1) \<Rightarrow> (respond 500 (Error ''Failed to fetch pending tasks''), db1)
      | (Some rows, db1) \<Rightarrow> (respond 200 (Rows rows), db1))"

section \<open>Reading a response\<close>

text \<open>
  The rows of a response whose body is an array of task rows.
\<close>

definition rows_of :: "response \<Rightarrow> post_row list" where
  "rows_of res = (case body res of Rows rows \<Rightarrow> rows | _ \<Rightarrow> [])"

text \<open>
  A list of rows in the order of \<^verbatim>\<open>ORDER BY timeofentry DESC\<close>.
\<close>

definition descending :: "post_row list \<Rightarrow> bool" where
  "descending rows =
     sorted_wrt (\<lambda>a b. ts_ge (post_timeofentry a) (post_timeofentry b)) rows"

section \<open>An example store\<close>

text \<open>
  Two users and four tasks: of the first user one pending task, one completed task and
  one hidden task; one pending task of the second user.
\<close>

definition alice :: logindata_row where
  "alice = \<lparr>logindata_id = 7, logindata_email = Some ''alice@example.com'',
             logindata_password = Some (BcryptHash 10 ''salt-a'' ''pw123''),
             logindata_firstname = Some ''Alice'', logindata_lastname = Some ''A''\<rparr>"

definition bob :: logindata_row where
  "bob = \<lparr>logindata_id = 8, logindata_email = Some ''bob@example.com'',
           logindata_password = Some (BcryptHash 10 ''salt-b'' ''hunter2''),
           logindata_firstname = Some ''Bob'', logindata_lastname = Some ''B''\<rparr>"

definition task_a :: post_row where
  "task_a = \<lparr>post_id = 1, post_user_id = 7, post_task = Some ''write report'',
              post_type = Some ''work'', post_timeofentry = Some 1000,
              post_completestatus = Some False, post_remindertime = Some 5000,
              post_currentstatus = Some False\<rparr>"

definition task_b :: post_row where
  "task_b = \<lparr>post_id = 2, post_user_id = 7, post_task = Some ''book flight'',
              post_type = Some ''travel'', post_timeofentry = Some 2000,
              post_completestatus = Some True, post_remindertime = Some 6000,
              post_currentstatus = Some False\<rparr>"

definition task_c :: post_row where
  "task_c = \<lparr>post_id = 3, post_user_id = 7, post_task = Some ''old note'',
              post_type = Some ''misc'', post_timeofentry = Some 3000,
              post_completestatus = Some True, post_remindertime = Some 9000000000,
              post_currentstatus = Some True\<rparr>"

definition task_d :: post_row where
  "task_d = \<lparr>post_id = 4, post_user_id = 8, post_task = Some ''pay rent'',
              post_type = Some ''home'', post_timeofentry = Some 4000,
              post_completestatus = Some False, post_remindertime = Some 8000,
              post_currentstatus = Some False\<rparr>"

definition example_store :: store where
  "example_store =
     \<lparr>logindata = [alice, bob], post = [task_a, task_b, task_c, task_d],
      logindata_id_seq = 9, post_id_seq = 5, available = True, issued = 0\<rparr>"

section \<open>Facts about the store\<close>

lemma ts_ge_total: "ts_ge a b \<or> ts_ge b a"
  by (auto simp: ts_ge_def split: option.splits)

lemma ts_ge_trans: "ts_ge a b \<Longrightarrow> ts_ge b c \<Longrightarrow> ts_ge a c"
  by (auto simp: ts_ge_def split: option.splits)

lemma set_insert_desc: "set (insert_desc r xs) = insert r (set xs)"
  by (induction xs) auto

lemma mset_insert_desc: "mset (insert_desc r xs) = add_mset r (mset xs)"
  by (induction xs) auto

lemma mset_order_by: "mset (order_by_timeofentry_desc rows) = mset rows"
  by (induction rows) (simp_all add: order_by_timeofentry_desc_def mset_insert_desc)

lemma set_order_by: "set (order_by_timeofentry_desc rows) = set rows"
  using mset_order_by by (metis set_mset_mset)

lemma length_order_by: "length (order_by_timeofentry_desc rows) = length rows"
  using mset_order_by by (metis size_mset)

lemma descending_insert_desc:
  "descending xs \<Longrightarrow> descending (insert_desc r xs)"
  unfolding descending_def
proof (induction xs)
  case Nil
  then show ?case by simp
next
  case (Cons x xs)
  show ?case
  proof (cases "ts_ge (post_timeofentry r) (post_timeofentry x)")
    case True
    with Cons.prems show ?thesis
      by (auto intro: ts_ge_trans)
  next
    case False
    then have "ts_ge (post_timeofentry x) (post_timeofentry r)"
      using ts_ge_total by blast
    with False Cons show ?thesis
      by (auto simp: set_insert_desc)
  qed
qed

lemma descending_order_by: "descending (order_by_timeofentry_desc rows)"
proof (induction rows)
  case Nil
  show ?case by (simp add: order_by_timeofentry_desc_def descending_def)
next
  case (Cons r rows)
  then show ?case
    using descending_insert_desc [of "order_by_timeofentry_desc rows" r]
    by (simp add: order_by_timeofentry_desc_def)
qed

lemma pending_cond:
  "is_true (sql_and (sql_and (sql_eq (Some u) (Some v)) (sql_eq c (Some False)))
                    (sql_eq d (Some False)))
     \<longleftrightarrow> u = v \<and> c = Some False \<and> d = Some False"
  by (auto simp: is_true_def sql_and_def sql_eq_def split: option.splits)

lemma completed_cond:
  "is_true (sql_and (sql_and (sql_eq (Some u) (Some v)) (sql_eq c (Some True)))
                    (sql_eq d (Some False)))
     \<longleftrightarrow> u = v \<and> c = Some True \<and> d = Some False"
  by (auto simp: is_true_def sql_and_def sql_eq_def split: option.splits)

lemma reminder_cond:
  "is_true (sql_and (sql_eq (Some u) (Some v))
                    (sql_lt (sql_minus rt (Some now)) (Some interval_30_minutes)))
     \<longleftrightarrow> u = v \<and> (\<exists>t. rt = Some t \<and> t - now < 30 * 60 * 1000000)"
  by (auto simp: is_true_def sql_and_def sql_eq_def sql_lt_def sql_minus_def
        interval_30_minutes_def split: option.splits)

lemma owned_iff: "owned i userId r \<longleftrightarrow> post_id r = i \<and> post_user_id r = userId"
  by (auto simp: owned_def is_true_def sql_and_def sql_eq_def)

lemma get_tasks_available:
  "available db \<Longrightarrow>
     get_tasks userId db =
       (respond 200 (Rows (order_by_timeofentry_desc
          [r \<leftarrow> post db. post_user_id r = userId \<and> post_completestatus r = Some False
                          \<and> post_currentstatus r = Some False])),
        db\<lparr>issued := Suc (issued db)\<rparr>)"
  by (simp add: get_tasks_def query_def Let_def select_pending_def pending_cond)

lemma get_taskschange_available:
  "available db \<Longrightarrow>
     get_taskschange userId db =
       (respond 200 (Rows (order_by_timeofentry_desc
          [r \<leftarrow> post db. post_user_id r = userId \<and> post_completestatus r = Some True
                          \<and> post_currentstatus r = Some False])),
        db\<lparr>issued := Suc (issued db)\<rparr>)"
  by (simp add: get_taskschange_def query_def Let_def select_completed_def completed_cond)

lemma get_remindertasks_available:
  "available db \<Longrightarrow>
     get_remindertasks userId now db =
       (respond 200 (Rows (take 5 (order_by_timeofentry_desc
          [r \<leftarrow> post db. post_user_id r = userId \<and>
                          (\<exists>t. post_remindertime r = Some t \<and> t - now < 30 * 60 * 1000000)]))),
        db\<lparr>issued := Suc (issued db)\<rparr>)"
  by (simp add: get_remindertasks_def query_def Let_def select_reminders_def reminder_cond)

lemma rows_of_respond [simp]: "rows_of (respond code (Rows rows)) = rows"
  by (simp add: rows_of_def respond_def)

lemma status_respond [simp]: "status (respond code b) = code"
  by (simp add: respond_def)

lemma body_respond [simp]: "body (respond code b) = b"
  by (simp add: respond_def)

lemma respond_eq [simp]: "respond c b = respond c' b' \<longleftrightarrow> c = c' \<and> b = b'"
  by (simp add: respond_def)

section \<open>The task views\<close>

lemmas example_defs =
  example_store_def task_a_def task_b_def task_c_def task_d_def alice_def bob_def

text \<open>
  Claim C1. For every user, on a store that answers, a task row is in the pending list
  (\<^verbatim>\<open>GET /tasks\<close>) exactly when it is a row of that user whose \<^verbatim>\<open>completestatus\<close> is false
  and whose \<^verbatim>\<open>currentstatus\<close> is false; it is in the completed list (\<^verbatim>\<open>GET /taskschange\<close>)
  exactly when it is a row of that user whose \<^verbatim>\<open>completestatus\<close> is true and whose
  \<^verbatim>\<open>currentstatus\<close> is false; a row whose \<^verbatim>\<open>currentstatus\<close> is true is in neither list;
  and no row is in both lists.
\<close>

theorem pending_completed_views:
  assumes "available db"
  shows "fst (get_tasks userId db) =
           respond 200 (Rows (rows_of (fst (get_tasks userId db)))) \<and>
         fst (get_taskschange userId db) =
           respond 200 (Rows (rows_of (fst (get_taskschange userId db)))) \<and>
         (\<forall>r. r \<in> set (rows_of (fst (get_tasks userId db))) \<longleftrightarrow>
                r \<in> set (post db) \<and> post_user_id r = userId \<and>
                post_completestatus r = Some False \<and> post_currentstatus r = Some False) \<and>
         (\<forall>r. r \<in> set (rows_of (fst (get_taskschange userId db))) \<longleftrightarrow>
                r \<in> set (post db) \<and> post_user_id r = userId \<and>
                post_completestatus r = Some True \<and> post_currentstatus r = Some False) \<and>
         (\<forall>r. post_currentstatus r = Some True \<longrightarrow>
                r \<notin> set (rows_of (fst (get_tasks userId db))) \<and>
                r \<notin> set (rows_of (fst (get_taskschange userId db)))) \<and>
         set (rows_of (fst (get_tasks userId db))) \<inter>
           set (rows_of (fst (get_taskschange userId db))) = {}"
proof -
  have pm: "r \<in> set (rows_of (fst (get_tasks userId db))) \<longleftrightarrow>
                r \<in> set (post db) \<and> post_user_id r = userId \<and>
                post_completestatus r = Some False \<and> post_currentstatus r = Some False" for r
    using assms by (auto simp: get_tasks_available set_order_by)
  have cm: "r \<in> set (rows_of (fst (get_taskschange userId db))) \<longleftrightarrow>
                r \<in> set (post db) \<and> post_user_id r = userId \<and>
                post_completestatus r = Some True \<and> post_currentstatus r = Some False" for r
    using assms by (auto simp: get_taskschange_available set_order_by)
  have s: "fst (get_tasks userId db) =
             respond 200 (Rows (rows_of (fst (get_tasks userId db))))"
          "fst (get_taskschange userId db) =
             respond 200 (Rows (rows_of (fst (get_taskschange userId db))))"
    using assms by (simp_all add: get_tasks_available get_taskschange_available)
  show ?thesis
    using s pm cm by auto
qed

theorem pending_completed_views_witness:
  "available example_store \<and>
   rows_of (fst (get_tasks 7 example_store)) = [task_a] \<and>
   rows_of (fst (get_taskschange 7 example_store)) = [task_b] \<and>
   task_a \<in> set (rows_of (fst (get_tasks 7 example_store))) \<and>
   task_a \<notin> set (rows_of (fst (get_taskschange 7 example_store))) \<and>
   task_b \<in> set (rows_of (fst (get_taskschange 7 example_store))) \<and>
   task_b \<notin> set (rows_of (fst (get_tasks 7 example_store))) \<and>
   task_c \<notin> set (rows_of (fst (get_tasks 7 example_store))) \<and>
   task_c \<notin> set (rows_of (fst (get_taskschange 7 example_store))) \<and>
   task_d \<notin> set (rows_of (fst (get_tasks 7 example_store)))"
proof -
  have a: "available example_store"
    by (simp add: example_store_def)
  have l: "rows_of (fst (get_tasks 7 example_store)) = [task_a]"
          "rows_of (fst (get_taskschange 7 example_store)) = [task_b]"
    by (simp_all add: get_tasks_available get_taskschange_available a)
       (simp_all add: example_defs order_by_timeofentry_desc_def)
  have p: "post example_store = [task_a, task_b, task_c, task_d]"
    by (simp add: example_store_def)
  show ?thesis
    using a l pending_completed_views [OF a, of 7]
    by (simp add: p) (simp add: task_a_def task_b_def task_c_def task_d_def)
qed

text \<open>
  Claim C2. For every user and store that answers, \<^verbatim>\<open>GET /remindertasks\<close> returns the first
  five of the user's rows with \<^verbatim>\<open>remindertime - now < 30 minutes\<close>, arranged by
  \<^verbatim>\<open>timeofentry\<close> descending: never more than five rows, each of them a row of the user
  that satisfies the condition, in descending order, and all such rows when there are
  at most five. The condition has no lower bound: a reminder in the past satisfies it,
  however long ago it was due.
\<close>

theorem reminders_listed:
  assumes "available db"
  shows "fst (get_remindertasks userId now db) =
           respond 200 (Rows (rows_of (fst (get_remindertasks userId now db)))) \<and>
         (\<exists>ordered.
             mset ordered =
               mset [r \<leftarrow> post db. post_user_id r = userId \<and>
                       (\<exists>t. post_remindertime r = Some t \<and> t - now < 30 * 60 * 1000000)] \<and>
             descending ordered \<and>
             rows_of (fst (get_remindertasks userId now db)) = take 5 ordered) \<and>
         length (rows_of (fst (get_remindertasks userId now db))) \<le> 5 \<and>
         descending (rows_of (fst (get_remindertasks userId now db))) \<and>
         (\<forall>r. r \<in> set (rows_of (fst (get_remindertasks userId now db))) \<longrightarrow>
                r \<in> set (post db) \<and> post_user_id r = userId \<and>
                (\<exists>t. post_remindertime r = Some t \<and> t - now < 30 * 60 * 1000000)) \<and>
         (length [r \<leftarrow> post db. post_user_id r = userId \<and>
                    (\<exists>t. post_remindertime r = Some t \<and> t - now < 30 * 60 * 1000000)] \<le> 5 \<longrightarrow>
            (\<forall>r t. r \<in> set (post db) \<and> post_user_id r = userId \<and>
                    post_remindertime r = Some t \<and> t - now < 30 * 60 * 1000000 \<longrightarrow>
                    r \<in> set (rows_of (fst (get_remindertasks userId now db)))) \<and>
            (\<forall>r t. r \<in> set (post db) \<and> post_user_id r = userId \<and>
                    post_remindertime r = Some t \<and> t \<le> now \<longrightarrow>
                    r \<in> set (rows_of (fst (get_remindertasks userId now db)))))"
proof -
  define due where
    "due = [r \<leftarrow> post db. post_user_id r = userId \<and>
              (\<exists>t. post_remindertime r = Some t \<and> t - now < 30 * 60 * 1000000)]"
  define ordered where "ordered = order_by_timeofentry_desc due"
  have res: "fst (get_remindertasks userId now db) = respond 200 (Rows (take 5 ordered))"
    using assms by (simp add: get_remindertasks_available ordered_def due_def)
  have rows: "rows_of (fst (get_remindertasks userId now db)) = take 5 ordered"
    by (simp add: res)
  have m: "mset ordered = mset due"
    by (simp add: ordered_def mset_order_by)
  have d: "descending ordered"
    by (simp add: ordered_def descending_order_by)
  have dt: "descending (take 5 ordered)"
    using d unfolding descending_def by (rule sorted_wrt_take)
  have sub: "r \<in> set (take 5 ordered) \<Longrightarrow> r \<in> set due" for r
    using set_take_subset [of 5 ordered] by (auto simp: ordered_def set_order_by)
  have all: "length due \<le> 5 \<Longrightarrow> set (take 5 ordered) = set due"
    by (simp add: ordered_def length_order_by set_order_by)
  have c1: "fst (get_remindertasks userId now db) =
              respond 200 (Rows (rows_of (fst (get_remindertasks userId now db))))"
    by (simp add: res)
  have c2: "\<exists>ordered. mset ordered = mset due \<and> descending ordered \<and>
              rows_of (fst (get_remindertasks userId now db)) = take 5 ordered"
    using m d rows by blast
  have c3: "length (rows_of (fst (get_remindertasks userId now db))) \<le> 5"
    by (simp add: rows)
  have c4: "descending (rows_of (fst (get_remindertasks userId now db)))"
    by (simp add: rows dt)
  have c5: "\<forall>r. r \<in> set (rows_of (fst (get_remindertasks userId now db))) \<longrightarrow>
                r \<in> set (post db) \<and> post_user_id r = userId \<and>
                (\<exists>t. post_remindertime r = Some t \<and> t - now < 30 * 60 * 1000000)"
    using sub by (auto simp: rows due_def)
  have c6: "length due \<le> 5 \<longrightarrow>
            (\<forall>r t. r \<in> set (post db) \<and> post_user_id r = userId \<and>
                    post_remindertime r = Some t \<and> t - now < 30 * 60 * 1000000 \<longrightarrow>
                    r \<in> set (rows_of (fst (get_remindertasks userId now db)))) \<and>
            (\<forall>r t. r \<in> set (post db) \<and> post_user_id r = userId \<and>
                    post_remindertime r = Some t \<and> t \<le> now \<longrightarrow>
                    r \<in> set (rows_of (fst (get_remindertasks userId now db))))"
  proof
    assume "length due \<le> 5"
    then have "set (rows_of (fst (get_remindertasks userId now db))) = set due"
      using all by (simp add: rows)
    then show "(\<forall>r t. r \<in> set (post db) \<and> post_user_id r = userId \<and>
                    post_remindertime r = Some t \<and> t - now < 30 * 60 * 1000000 \<longrightarrow>
                    r \<in> set (rows_of (fst (get_remindertasks userId now db)))) \<and>
            (\<forall>r t. r \<in> set (post db) \<and> post_user_id r = userId \<and>
                    post_remindertime r = Some t \<and> t \<le> now \<longrightarrow>
                    r \<in> set (rows_of (fst (get_remindertasks userId now db))))"
      by (auto simp: due_def)
  qed
  show ?thesis
    using c1 c2 c3 c4 c5 c6 unfolding due_def by blast
qed

theorem reminders_listed_witness:
  "available example_store \<and>
   rows_of (fst (get_remindertasks 7 1000000 example_store)) = [task_b, task_a] \<and>
   length (rows_of (fst (get_remindertasks 7 1000000 example_store))) \<le> 5 \<and>
   descending (rows_of (fst (get_remindertasks 7 1000000 example_store))) \<and>
   task_a \<in> set (rows_of (fst (get_remindertasks 7 1000000 example_store))) \<and>
   task_c \<notin> set (rows_of (fst (get_remindertasks 7 1000000 example_store)))"
proof -
  have a: "available example_store"
    by (simp add: example_store_def)
  have l: "rows_of (fst (get_remindertasks 7 1000000 example_store)) = [task_b, task_a]"
    by (simp add: get_remindertasks_available a)
       (simp add: example_defs order_by_timeofentry_desc_def ts_ge_def)
  have n: "task_c \<notin> set [task_b, task_a]"
    by (simp add: task_a_def task_b_def task_c_def)
  show ?thesis
    using a l n reminders_listed [OF a, of 7 1000000]
    by simp
qed

section \<open>Registration\<close>

lemma email_cond:
  "is_true (sql_eq c (Some e)) \<longleftrightarrow> c = Some e"
  by (auto simp: is_true_def sql_eq_def split: option.splits)

lemma select_logindata_available:
  "available db \<Longrightarrow>
     query (select_logindata_by_email (Some e)) db =
       (Some [u \<leftarrow> logindata db. logindata_email u = Some e], db\<lparr>issued := Suc (issued db)\<rparr>)"
  by (simp add: query_def Let_def select_logindata_by_email_def email_cond)

lemma returning_public:
  "returning [''id'', ''email'', ''firstname'', ''lastname''] u =
     [(''id'', SqlInt (logindata_id u)), (''email'', text_val (logindata_email u)),
      (''firstname'', text_val (logindata_firstname u)),
      (''lastname'', text_val (logindata_lastname u))]"
  by (simp add: returning_def logindata_column_def)

lemma text_val_not_password: "text_val x \<noteq> SqlPassword h"
  by (simp add: text_val_def split: option.splits)

lemma insert_logindata_available:
  "available db \<Longrightarrow>
     query (insert_logindata email hashedPassword firstname lastname) db =
       (Some [[(''id'', SqlInt (logindata_id_seq db)), (''email'', text_val email),
               (''firstname'', text_val firstname), (''lastname'', text_val lastname)]],
        db\<lparr>issued := Suc (issued db),
           logindata := logindata db @
             [\<lparr>logindata_id = logindata_id_seq db, logindata_email = email,
               logindata_password = hashedPassword,
               logindata_firstname = firstname, logindata_lastname = lastname\<rparr>],
           logindata_id_seq := logindata_id_seq db + 1\<rparr>)"
  by (simp add: query_def Let_def insert_logindata_def returning_public)

lemma register_invalid:
  "falsy email \<or> falsy password \<or> falsy firstname \<or> falsy lastname \<Longrightarrow>
     register email password firstname lastname salt db =
       (respond 400 (Error ''Email, password, firstname, and lastname are required''), db)"
  by (auto simp: register_def)

lemma register_conflict:
  assumes v: "\<not> (falsy email \<or> falsy password \<or> falsy firstname \<or> falsy lastname)"
    and a: "available db"
    and x: "u \<in> set (logindata db)" "logindata_email u = email"
  shows "register email password firstname lastname salt db =
           (respond 409 (Error ''Email already registered''), db\<lparr>issued := Suc (issued db)\<rparr>)"
proof -
  obtain e where e: "email = Some e"
    using v by (auto simp: falsy_def)
  have "[u \<leftarrow> logindata db. logindata_email u = Some e] \<noteq> []"
    using x e by (auto simp: filter_empty_conv)
  then show ?thesis
    using v a by (simp add: register_def e select_logindata_available)
qed

lemma register_created:
  assumes v: "\<not> (falsy email \<or> falsy password \<or> falsy firstname \<or> falsy lastname)"
    and a: "available db"
    and x: "\<forall>u \<in> set (logindata db). logindata_email u \<noteq> email"
    and p: "password = Some pw"
  shows "register email password firstname lastname salt db =
           (respond 201 (Registered (Some
              [(''id'', SqlInt (logindata_id_seq db)), (''email'', text_val email),
               (''firstname'', text_val firstname), (''lastname'', text_val lastname)])),
            db\<lparr>issued := Suc (Suc (issued db)),
               logindata := logindata db @
                 [\<lparr>logindata_id = logindata_id_seq db, logindata_email = email,
                   logindata_password = Some (BcryptHash 10 salt (take 72 pw)),
                   logindata_firstname = firstname, logindata_lastname = lastname\<rparr>],
               logindata_id_seq := logindata_id_seq db + 1\<rparr>)"
proof -
  obtain e where e: "email = Some e"
    using v by (auto simp: falsy_def)
  have n: "[u \<leftarrow> logindata db. logindata_email u = Some e] = []"
    using x e by (auto simp: filter_empty_conv)
  show ?thesis
    using v a
    by (simp add: register_def e p select_logindata_available n bcrypt_hash_def
          insert_logindata_available first_row_def)
qed

text \<open>
  Claim C3. \<^verbatim>\<open>POST /register\<close> answers 400 when one of email, password, firstname and
  lastname is empty. With all four given and a store that answers, it answers 409 when a
  row with that email exists, and leaves the table as it was. Otherwise it answers 201:
  the row it adds holds the bcrypt hash of the password with the salt drawn (cost 10),
  not the password itself, and the user object it returns has exactly the keys id, email,
  firstname and lastname, none of whose values is a password.
\<close>

theorem register_contract:
  "(falsy email \<or> falsy password \<or> falsy firstname \<or> falsy lastname \<longrightarrow>
      fst (register email password firstname lastname salt db) =
        respond 400 (Error ''Email, password, firstname, and lastname are required'')) \<and>
   (\<not> (falsy email \<or> falsy password \<or> falsy firstname \<or> falsy lastname) \<and>
    available db \<and> (\<exists>u \<in> set (logindata db). logindata_email u = email) \<longrightarrow>
      fst (register email password firstname lastname salt db) =
        respond 409 (Error ''Email already registered'') \<and>
      logindata (snd (register email password firstname lastname salt db)) = logindata db) \<and>
   (\<not> (falsy email \<or> falsy password \<or> falsy firstname \<or> falsy lastname) \<and>
    available db \<and> \<not> (\<exists>u \<in> set (logindata db). logindata_email u = email) \<longrightarrow>
      status (fst (register email password firstname lastname salt db)) = 201 \<and>
      (\<exists>user. body (fst (register email password firstname lastname salt db)) =
                 Registered (Some user) \<and>
              map fst user = [''id'', ''email'', ''firstname'', ''lastname''] \<and>
              map snd user = [SqlInt (logindata_id_seq db), text_val email,
                              text_val firstname, text_val lastname] \<and>
              (\<forall>h. SqlPassword h \<notin> set (map snd user))) \<and>
      (\<exists>pw. password = Some pw \<and>
            logindata (snd (register email password firstname lastname salt db)) =
              logindata db @
                [\<lparr>logindata_id = logindata_id_seq db, logindata_email = email,
                  logindata_password = Some (BcryptHash 10 salt (take 72 pw)),
                  logindata_firstname = firstname, logindata_lastname = lastname\<rparr>] \<and>
            bcrypt_hash password 10 salt = Some (BcryptHash 10 salt (take 72 pw)) \<and>
            (\<forall>u \<in> set (logindata (snd (register email password firstname lastname salt db))).
               u \<notin> set (logindata db) \<longrightarrow> logindata_password u \<noteq> Some (Plaintext pw))))"
proof (intro conjI impI)
  assume "falsy email \<or> falsy password \<or> falsy firstname \<or> falsy lastname"
  then show "fst (register email password firstname lastname salt db) =
        respond 400 (Error ''Email, password, firstname, and lastname are required'')"
    by (simp add: register_invalid)
next
  assume h: "\<not> (falsy email \<or> falsy password \<or> falsy firstname \<or> falsy lastname) \<and>
    available db \<and> (\<exists>u \<in> set (logindata db). logindata_email u = email)"
  then obtain u where "u \<in> set (logindata db)" "logindata_email u = email"
    by blast
  with h have r: "register email password firstname lastname salt db =
           (respond 409 (Error ''Email already registered''), db\<lparr>issued := Suc (issued db)\<rparr>)"
    using register_conflict by blast
  show "fst (register email password firstname lastname salt db) =
        respond 409 (Error ''Email already registered'')"
    by (simp add: r)
  show "logindata (snd (register email password firstname lastname salt db)) = logindata db"
    by (simp add: r)
next
  assume h: "\<not> (falsy email \<or> falsy password \<or> falsy firstname \<or> falsy lastname) \<and>
    available db \<and> \<not> (\<exists>u \<in> set (logindata db). logindata_email u = email)"
  then obtain pw where pw: "password = Some pw"
    by (auto simp: falsy_def)
  have r: "register email password firstname lastname salt db =
           (respond 201 (Registered (Some
              [(''id'', SqlInt (logindata_id_seq db)), (''email'', text_val email),
               (''firstname'', text_val firstname), (''lastname'', text_val lastname)])),
            db\<lparr>issued := Suc (Suc (issued db)),
               logindata := logindata db @
                 [\<lparr>logindata_id = logindata_id_seq db, logindata_email = email,
                   logindata_password = Some (BcryptHash 10 salt (take 72 pw)),
                   logindata_firstname = firstname, logindata_lastname = lastname\<rparr>],
               logindata_id_seq := logindata_id_seq db + 1\<rparr>)"
    using h pw register_created [of email password firstname lastname db pw salt] by blast
  show "status (fst (register email password firstname lastname salt db)) = 201"
    by (simp add: r)
  show "\<exists>user. body (fst (register email password firstname lastname salt db)) =
                 Registered (Some user) \<and>
              map fst user = [''id'', ''email'', ''firstname'', ''lastname''] \<and>
              map snd user = [SqlInt (logindata_id_seq db), text_val email,
                              text_val firstname, text_val lastname] \<and>
              (\<forall>h. SqlPassword h \<notin> set (map snd user))"
    by (simp add: r text_val_not_password [symmetric])
  show "\<exists>pw. password = Some pw \<and>
            logindata (snd (register email password firstname lastname salt db)) =
              logindata db @
                [\<lparr>logindata_id = logindata_id_seq db, logindata_email = email,
                  logindata_password = Some (BcryptHash 10 salt (take 72 pw)),
                  logindata_firstname = firstname, logindata_lastname = lastname\<rparr>] \<and>
            bcrypt_hash password 10 salt = Some (BcryptHash 10 salt (take 72 pw)) \<and>
            (\<forall>u \<in> set (logindata (snd (register email password firstname lastname salt db))).
               u \<notin> set (logindata db) \<longrightarrow> logindata_password u \<noteq> Some (Plaintext pw))"
    unfolding r by (rule exI [of _ pw]) (simp add: pw bcrypt_hash_def)
qed

theorem register_contract_witness:
  "falsy None \<and>
   fst (register None (Some ''secret'') (Some ''Carol'') (Some ''C'') ''salt-c'' example_store) =
     respond 400 (Error ''Email, password, firstname, and lastname are required'') \<and>
   \<not> (falsy (Some ''alice@example.com'') \<or> falsy (Some ''secret'') \<or>
      falsy (Some ''Carol'') \<or> falsy (Some ''C'')) \<and>
   available example_store \<and>
   (\<exists>u \<in> set (logindata example_store). logindata_email u = Some ''alice@example.com'') \<and>
   fst (register (Some ''alice@example.com'') (Some ''secret'') (Some ''Carol'') (Some ''C'')
          ''salt-c'' example_store) =
     respond 409 (Error ''Email already registered'') \<and>
   \<not> (\<exists>u \<in> set (logindata example_store). logindata_email u = Some ''carol@example.com'') \<and>
   status (fst (register (Some ''carol@example.com'') (Some ''secret'') (Some ''Carol'')
                  (Some ''C'') ''salt-c'' example_store)) = 201 \<and>
   logindata (snd (register (Some ''carol@example.com'') (Some ''secret'') (Some ''Carol'')
                     (Some ''C'') ''salt-c'' example_store)) =
     [alice, bob,
      \<lparr>logindata_id = 9, logindata_email = Some ''carol@example.com'',
        logindata_password = Some (BcryptHash 10 ''salt-c'' ''secret''),
        logindata_firstname = Some ''Carol'', logindata_lastname = Some ''C''\<rparr>]"
proof -
  have v: "\<not> (falsy (Some ''alice@example.com'') \<or> falsy (Some ''secret'') \<or>
      falsy (Some ''Carol'') \<or> falsy (Some ''C''))"
      "\<not> (falsy (Some ''carol@example.com'') \<or> falsy (Some ''secret'') \<or>
      falsy (Some ''Carol'') \<or> falsy (Some ''C''))"
      "falsy None"
    by (simp_all add: falsy_def)
  have a: "available example_store"
    by (simp add: example_store_def)
  have x: "\<exists>u \<in> set (logindata example_store). logindata_email u = Some ''alice@example.com''"
          "\<not> (\<exists>u \<in> set (logindata example_store). logindata_email u = Some ''carol@example.com'')"
    by (simp_all add: example_store_def alice_def bob_def)
  have l: "logindata example_store = [alice, bob]" "logindata_id_seq example_store = 9"
    by (simp_all add: example_store_def)
  show ?thesis
    using v a x
      register_contract [of None "Some ''secret''" "Some ''Carol''" "Some ''C''" "''salt-c''"
        example_store]
      register_contract [of "Some ''alice@example.com''" "Some ''secret''" "Some ''Carol''"
        "Some ''C''" "''salt-c''" example_store]
      register_contract [of "Some ''carol@example.com''" "Some ''secret''" "Some ''Carol''"
        "Some ''C''" "''salt-c''" example_store]
    by (simp add: l)
qed

section \<open>Login and session tokens\<close>

lemma login_invalid:
  "falsy email \<or> falsy password \<Longrightarrow>
     login email password jwtSecretKey clock db =
       (respond 400 (Error ''Email and password are required''), db)"
  by (auto simp: login_def)

lemma login_found:
  assumes v: "\<not> (falsy email \<or> falsy password)"
    and a: "available db"
  shows "login email password jwtSecretKey clock db =
     (case [u \<leftarrow> logindata db. logindata_email u = email] of
        [] \<Rightarrow> (respond 404 (Error ''User not found''), db\<lparr>issued := Suc (issued db)\<rparr>)
      | user # rest \<Rightarrow>
          (case bcrypt_compare password (logindata_password user) of
             None \<Rightarrow> (respond 500 (Error ''Failed to log in''), db\<lparr>issued := Suc (issued db)\<rparr>)
           | Some isPasswordValid \<Rightarrow>
               if \<not> isPasswordValid then
                 (respond 401 (Error ''Incorrect password''), db\<lparr>issued := Suc (issued db)\<rparr>)
               else
                 (case jwt_sign (logindata_id user) (logindata_email user) jwtSecretKey clock of
                    None \<Rightarrow> (respond 500 (Error ''Failed to log in''),
                              db\<lparr>issued := Suc (issued db)\<rparr>)
                  | Some tok \<Rightarrow>
                      (respond 200 (LoggedIn tok (logindata_firstname user)),
                       db\<lparr>issued := Suc (issued db)\<rparr>))))"
proof -
  obtain e where e: "email = Some e"
    using v by (auto simp: falsy_def)
  show ?thesis
    using v a by (simp add: login_def e select_logindata_available)
qed

lemma login_ok_cases:
  assumes "status (fst (login email password jwtSecretKey clock db)) = 200"
  shows "\<exists>user rest k.
           [u \<leftarrow> logindata db. logindata_email u = email] = user # rest \<and>
           bcrypt_compare password (logindata_password user) = Some True \<and>
           jwtSecretKey = Some k \<and> k \<noteq> [] \<and>
           fst (login email password jwtSecretKey clock db) =
             respond 200 (LoggedIn (Token (logindata_id user) (logindata_email user) clock
                                      (clock + 3600) k) (logindata_firstname user))"
proof -
  have v: "\<not> (falsy email \<or> falsy password)"
    using assms by (auto simp: login_def)
  have a: "available db"
    using assms v by (auto simp: login_def query_def Let_def split: if_splits)
  show ?thesis
    using assms unfolding login_found [OF v a]
    by (auto simp: jwt_sign_def expiresIn_def split: list.splits option.splits if_splits)
qed

text \<open>
  Claim C4. \<^verbatim>\<open>POST /login\<close> answers 400 when email or password is empty. With both given
  and a store that answers, it answers 404 when no row has that email, and 401 when the
  comparison of the password with the hash of the first such row answers false. When the
  comparison answers true (and a signing key is set) it answers 200 with a token signed
  with the key, whose payload is the id and the email of that row, issued at the time of
  the call and expiring 3600 seconds later, together with the firstname of the row; and
  every answer 200 is of that form.
\<close>

theorem login_contract:
  "(falsy email \<or> falsy password \<longrightarrow>
      fst (login email password jwtSecretKey clock db) =
        respond 400 (Error ''Email and password are required'')) \<and>
   (\<not> (falsy email \<or> falsy password) \<and> available db \<and>
    \<not> (\<exists>u \<in> set (logindata db). logindata_email u = email) \<longrightarrow>
      fst (login email password jwtSecretKey clock db) =
        respond 404 (Error ''User not found'')) \<and>
   (\<forall>user rest.
      \<not> (falsy email \<or> falsy password) \<and> available db \<and>
      [u \<leftarrow> logindata db. logindata_email u = email] = user # rest \<and>
      bcrypt_compare password (logindata_password user) = Some False \<longrightarrow>
        fst (login email password jwtSecretKey clock db) =
          respond 401 (Error ''Incorrect password'')) \<and>
   (\<forall>user rest k.
      \<not> (falsy email \<or> falsy password) \<and> available db \<and>
      [u \<leftarrow> logindata db. logindata_email u = email] = user # rest \<and>
      bcrypt_compare password (logindata_password user) = Some True \<and>
      jwtSecretKey = Some k \<and> k \<noteq> [] \<longrightarrow>
        fst (login email password jwtSecretKey clock db) =
          respond 200 (LoggedIn (Token (logindata_id user) (logindata_email user) clock
                                   (clock + 3600) k) (logindata_firstname user))) \<and>
   (status (fst (login email password jwtSecretKey clock db)) = 200 \<longrightarrow>
      (\<exists>user tok.
         user \<in> set (logindata db) \<and> logindata_email user = email \<and>
         bcrypt_compare password (logindata_password user) = Some True \<and>
         body (fst (login email password jwtSecretKey clock db)) =
           LoggedIn tok (logindata_firstname user) \<and>
         claims_userId tok = logindata_id user \<and> claims_email tok = logindata_email user \<and>
         claims_iat tok = clock \<and> claims_exp tok = clock + 3600 \<and>
         jwtSecretKey = Some (signed_with tok)))"
proof (intro conjI impI allI)
  assume "falsy email \<or> falsy password"
  then show "fst (login email password jwtSecretKey clock db) =
        respond 400 (Error ''Email and password are required'')"
    by (simp add: login_invalid)
next
  assume h: "\<not> (falsy email \<or> falsy password) \<and> available db \<and>
    \<not> (\<exists>u \<in> set (logindata db). logindata_email u = email)"
  then have "[u \<leftarrow> logindata db. logindata_email u = email] = []"
    by (auto simp: filter_empty_conv)
  with h show "fst (login email password jwtSecretKey clock db) =
        respond 404 (Error ''User not found'')"
    by (simp add: login_found)
next
  fix user rest
  assume "\<not> (falsy email \<or> falsy password) \<and> available db \<and>
      [u \<leftarrow> logindata db. logindata_email u = email] = user # rest \<and>
      bcrypt_compare password (logindata_password user) = Some False"
  then show "fst (login email password jwtSecretKey clock db) =
          respond 401 (Error ''Incorrect password'')"
    by (simp add: login_found)
next
  fix user rest k
  assume "\<not> (falsy email \<or> falsy password) \<and> available db \<and>
      [u \<leftarrow> logindata db. logindata_email u = email] = user # rest \<and>
      bcrypt_compare password (logindata_password user) = Some True \<and>
      jwtSecretKey = Some k \<and> k \<noteq> []"
  then show "fst (login email password jwtSecretKey clock db) =
          respond 200 (LoggedIn (Token (logindata_id user) (logindata_email user) clock
                                   (clock + 3600) k) (logindata_firstname user))"
    by (simp add: login_found jwt_sign_def expiresIn_def)
next
  assume "status (fst (login email password jwtSecretKey clock db)) = 200"
  then obtain user rest k where
    f: "[u \<leftarrow> logindata db. logindata_email u = email] = user # rest" and
    c: "bcrypt_compare password (logindata_password user) = Some True" and
    k: "jwtSecretKey = Some k" and
    r: "fst (login email password jwtSecretKey clock db) =
             respond 200 (LoggedIn (Token (logindata_id user) (logindata_email user) clock
                                      (clock + 3600) k) (logindata_firstname user))"
    using login_ok_cases by blast
  have "user \<in> set [u \<leftarrow> logindata db. logindata_email u = email]"
    by (simp add: f)
  then have m: "user \<in> set (logindata db)" "logindata_email user = email"
    by simp_all
  show "\<exists>user tok.
         user \<in> set (logindata db) \<and> logindata_email user = email \<and>
         bcrypt_compare password (logindata_password user) = Some True \<and>
         body (fst (login email password jwtSecretKey clock db)) =
           LoggedIn tok (logindata_firstname user) \<and>
         claims_userId tok = logindata_id user \<and> claims_email tok = logindata_email user \<and>
         claims_iat tok = clock \<and> claims_exp tok = clock + 3600 \<and>
         jwtSecretKey = Some (signed_with tok)"
    unfolding r using m c k
    by (intro exI [of _ user]
          exI [of _ "Token (logindata_id user) (logindata_email user) clock (clock + 3600) k"])
       simp
qed

theorem login_contract_witness:
  "falsy None \<and>
   fst (login None (Some ''pw123'') (Some ''k3y'') 500 example_store) =
     respond 400 (Error ''Email and password are required'') \<and>
   \<not> (falsy (Some ''nobody@example.com'') \<or> falsy (Some ''pw123'')) \<and>
   available example_store \<and>
   \<not> (\<exists>u \<in> set (logindata example_store). logindata_email u = Some ''nobody@example.com'') \<and>
   fst (login (Some ''nobody@example.com'') (Some ''pw123'') (Some ''k3y'') 500 example_store) =
     respond 404 (Error ''User not found'') \<and>
   [u \<leftarrow> logindata example_store. logindata_email u = Some ''alice@example.com''] = [alice] \<and>
   bcrypt_compare (Some ''wrong'') (logindata_password alice) = Some False \<and>
   fst (login (Some ''alice@example.com'') (Some ''wrong'') (Some ''k3y'') 500 example_store) =
     respond 401 (Error ''Incorrect password'') \<and>
   bcrypt_compare (Some ''pw123'') (logindata_password alice) = Some True \<and>
   fst (login (Some ''alice@example.com'') (Some ''pw123'') (Some ''k3y'') 500 example_store) =
     respond 200 (LoggedIn (Token 7 (Some ''alice@example.com'') 500 4100 ''k3y'') (Some ''Alice''))"
proof -
  have v: "falsy None" "\<not> (falsy (Some ''nobody@example.com'') \<or> falsy (Some ''pw123''))"
    "\<not> (falsy (Some ''alice@example.com'') \<or> falsy (Some ''wrong''))"
    "\<not> (falsy (Some ''alice@example.com'') \<or> falsy (Some ''pw123''))"
    by (simp_all add: falsy_def)
  have a: "available example_store"
    by (simp add: example_store_def)
  have x: "\<not> (\<exists>u \<in> set (logindata example_store). logindata_email u = Some ''nobody@example.com'')"
    "[u \<leftarrow> logindata example_store. logindata_email u = Some ''alice@example.com''] = [alice]"
    by (simp_all add: example_store_def alice_def bob_def)
  have c: "bcrypt_compare (Some ''wrong'') (logindata_password alice) = Some False"
    "bcrypt_compare (Some ''pw123'') (logindata_password alice) = Some True"
    by (simp_all add: bcrypt_compare_def alice_def)
  have i: "logindata_id alice = 7" "logindata_email alice = Some ''alice@example.com''"
    "logindata_firstname alice = Some ''Alice''"
    by (simp_all add: alice_def)
  note l1 = login_contract [of None "Some ''pw123''" "Some ''k3y''" 500 example_store]
  note l2 = login_contract [of "Some ''nobody@example.com''" "Some ''pw123''" "Some ''k3y''" 500
              example_store]
  note l3 = login_contract [of "Some ''alice@example.com''" "Some ''wrong''"
              "Some ''k3y''" 500 example_store, THEN conjunct2, THEN conjunct2, THEN conjunct1, rule_format,
              of alice "[]"]
  note l4 = login_contract [of "Some ''alice@example.com''" "Some ''pw123''"
              "Some ''k3y''" 500 example_store, THEN conjunct2, THEN conjunct2, THEN conjunct2,
              THEN conjunct1, rule_format, of alice "[]" "''k3y''"]
  show ?thesis
    using v a x c l1 l2 l3 l4 by (simp add: i)
qed

text \<open>
  Claim C5. The token that a successful login returns carries the id and the email of a
  row of the table with the email of the request. Presented as \<^verbatim>\<open>Bearer <token>\<close> at any
  time before the issuance time plus one hour, \<^verbatim>\<open>validateToken\<close> accepts it and sets the
  request's user id and email to those of the payload, so that a protected handler runs
  for that user; from the issuance time plus one hour on, \<^verbatim>\<open>validateToken\<close> answers 403.
\<close>

theorem token_round_trip:
  assumes "fst (login email password jwtSecretKey clock db) = respond 200 (LoggedIn tok firstname)"
  shows "(\<exists>user. user \<in> set (logindata db) \<and> logindata_email user = email \<and>
            claims_userId tok = logindata_id user \<and> claims_email tok = logindata_email user) \<and>
         claims_iat tok = clock \<and> claims_exp tok = clock + 3600 \<and>
         (\<forall>now. now < clock + 3600 \<longrightarrow>
            validateToken (Some [Word ''Bearer'', Jwt tok]) jwtSecretKey now =
              Inr (claims_userId tok, claims_email tok)) \<and>
         (\<forall>now handler s. now < clock + 3600 \<longrightarrow>
            protected (Some [Word ''Bearer'', Jwt tok]) jwtSecretKey now handler s =
              handler (claims_userId tok) s) \<and>
         (\<forall>now. clock + 3600 \<le> now \<longrightarrow>
            validateToken (Some [Word ''Bearer'', Jwt tok]) jwtSecretKey now =
              Inl (respond 403 (Error ''Invalid or expired token'')))"
proof -
  have "status (fst (login email password jwtSecretKey clock db)) = 200"
    by (simp add: assms)
  then obtain user rest k where
    f: "[u \<leftarrow> logindata db. logindata_email u = email] = user # rest" and
    k: "jwtSecretKey = Some k" "k \<noteq> []" and
    r: "fst (login email password jwtSecretKey clock db) =
             respond 200 (LoggedIn (Token (logindata_id user) (logindata_email user) clock
                                      (clock + 3600) k) (logindata_firstname user))"
    using login_ok_cases by blast
  have t: "tok = Token (logindata_id user) (logindata_email user) clock (clock + 3600) k"
    using assms r by simp
  have "user \<in> set [u \<leftarrow> logindata db. logindata_email u = email]"
    by (simp add: f)
  then have m: "user \<in> set (logindata db)" "logindata_email user = email"
    by simp_all
  have ok: "now < clock + 3600 \<Longrightarrow>
              validateToken (Some [Word ''Bearer'', Jwt tok]) jwtSecretKey now =
                Inr (claims_userId tok, claims_email tok)" for now
    by (simp add: validateToken_def jwt_verify_def t k)
  have late: "clock + 3600 \<le> now \<Longrightarrow>
              validateToken (Some [Word ''Bearer'', Jwt tok]) jwtSecretKey now =
                Inl (respond 403 (Error ''Invalid or expired token''))" for now
    by (simp add: validateToken_def jwt_verify_def t k)
  have pr: "now < clock + 3600 \<Longrightarrow>
              protected (Some [Word ''Bearer'', Jwt tok]) jwtSecretKey now handler s =
                handler (claims_userId tok) s" for now handler s
    by (simp add: protected_def ok)
  have u: "\<exists>user. user \<in> set (logindata db) \<and> logindata_email user = email \<and>
            claims_userId tok = logindata_id user \<and> claims_email tok = logindata_email user"
    using m t by auto
  have ie: "claims_iat tok = clock" "claims_exp tok = clock + 3600"
    by (simp_all add: t)
  show ?thesis
    using u ie ok late pr by blast
qed

lemma example_login:
  "fst (login (Some ''alice@example.com'') (Some ''pw123'') (Some ''k3y'') 500 example_store) =
     respond 200 (LoggedIn (Token 7 (Some ''alice@example.com'') 500 4100 ''k3y'') (Some ''Alice''))"
  by (simp add: login_def falsy_def query_def Let_def select_logindata_by_email_def email_cond
        example_store_def alice_def bob_def bcrypt_compare_def jwt_sign_def expiresIn_def)

theorem token_round_trip_witness:
  "fst (login (Some ''alice@example.com'') (Some ''pw123'') (Some ''k3y'') 500 example_store) =
     respond 200 (LoggedIn (Token 7 (Some ''alice@example.com'') 500 4100 ''k3y'') (Some ''Alice'')) \<and>
   validateToken (Some [Word ''Bearer'', Jwt (Token 7 (Some ''alice@example.com'') 500 4100 ''k3y'')])
     (Some ''k3y'') 4099 = Inr (7, Some ''alice@example.com'') \<and>
   validateToken (Some [Word ''Bearer'', Jwt (Token 7 (Some ''alice@example.com'') 500 4100 ''k3y'')])
     (Some ''k3y'') 4100 = Inl (respond 403 (Error ''Invalid or expired token''))"
  using example_login token_round_trip [OF example_login]
  by simp

section \<open>Facts about the update statements\<close>

lemma returning_rows:
  "concat (map (\<lambda>r. if P r then [f r] else []) rows) = map f (filter P rows)"
  by (induction rows) simp_all

lemma no_row_updated:
  "filter P rows = [] \<Longrightarrow> map (\<lambda>r. if P r then f r else r) rows = rows"
  by (induction rows) (simp_all split: if_splits)

lemma update_status_available:
  "available db \<Longrightarrow>
     query (update_status completestatus currentstatus (Some i) userId) db =
       (Some (map (\<lambda>r. r\<lparr>post_completestatus := completestatus,
                            post_currentstatus := currentstatus\<rparr>)
                [r \<leftarrow> post db. post_id r = i \<and> post_user_id r = userId]),
        db\<lparr>issued := Suc (issued db),
           post := map (\<lambda>r. if post_id r = i \<and> post_user_id r = userId
                             then r\<lparr>post_completestatus := completestatus,
                                    post_currentstatus := currentstatus\<rparr>
                             else r) (post db)\<rparr>)"
  by (simp add: query_def Let_def update_status_def owned_iff returning_rows)

lemma update_content_available:
  "available db \<Longrightarrow>
     query (update_content editedtask editedtype (Some i) userId) db =
       (Some (map (\<lambda>r. r\<lparr>post_task := editedtask, post_type := editedtype\<rparr>)
                [r \<leftarrow> post db. post_id r = i \<and> post_user_id r = userId]),
        db\<lparr>issued := Suc (issued db),
           post := map (\<lambda>r. if post_id r = i \<and> post_user_id r = userId
                             then r\<lparr>post_task := editedtask, post_type := editedtype\<rparr>
                             else r) (post db)\<rparr>)"
  by (simp add: query_def Let_def update_content_def owned_iff returning_rows)

lemma update_status_failed:
  "\<not> available db \<or> id' = None \<Longrightarrow>
     query (update_status completestatus currentstatus id' userId) db =
       (None, db\<lparr>issued := Suc (issued db)\<rparr>)"
  by (auto simp: query_def Let_def update_status_def)

lemma update_content_failed:
  "\<not> available db \<or> id' = None \<Longrightarrow>
     query (update_content editedtask editedtype id' userId) db =
       (None, db\<lparr>issued := Suc (issued db)\<rparr>)"
  by (auto simp: query_def Let_def update_content_def)

lemma patch_tasks_none:
  assumes "available db" and "[r \<leftarrow> post db. post_id r = i \<and> post_user_id r = userId] = []"
  shows "patch_tasks userId (Some i) completestatus currentstatus db =
           (respond 404 (Error ''Task not found or unauthorized''),
            db\<lparr>issued := Suc (issued db)\<rparr>)"
  using assms
  by (simp add: patch_tasks_def update_status_available no_row_updated)

lemma patch_dtasks_none:
  assumes "available db" and "[r \<leftarrow> post db. post_id r = i \<and> post_user_id r = userId] = []"
  shows "patch_dtasks userId (Some i) completestatus currentstatus db =
           (respond 404 (Error ''Task not found or unauthorized''),
            db\<lparr>issued := Suc (issued db)\<rparr>)"
  using assms
  by (simp add: patch_dtasks_def update_status_available no_row_updated)

lemma patch_taskschange_none:
  assumes "available db" and "[r \<leftarrow> post db. post_id r = i \<and> post_user_id r = userId] = []"
  shows "patch_taskschange userId (Some i) completestatus currentstatus db =
           (respond 404 (Error ''Task not found or unauthorized''),
            db\<lparr>issued := Suc (issued db)\<rparr>)"
  using assms
  by (simp add: patch_taskschange_def update_status_available no_row_updated)

lemma put_tasks_none:
  assumes "available db" and "\<not> falsy editedtask"
    and "[r \<leftarrow> post db. post_id r = i \<and> post_user_id r = userId] = []"
  shows "put_tasks userId (Some i) editedtask editedtype db =
           (respond 404 (Error ''Task not found or unauthorized''),
            db\<lparr>issued := Suc (issued db)\<rparr>)"
  using assms
  by (simp add: put_tasks_def update_content_available no_row_updated)

lemma patch_tasks_some:
  assumes "available db"
    and "[r \<leftarrow> post db. post_id r = i \<and> post_user_id r = userId] = r # rest"
  shows "patch_tasks userId (Some i) completestatus currentstatus db =
           (respond 200 (Row (Some (r\<lparr>post_completestatus := completestatus,
                                       post_currentstatus := currentstatus\<rparr>))),
            db\<lparr>issued := Suc (issued db),
               post := map (\<lambda>r. if post_id r = i \<and> post_user_id r = userId
                                 then r\<lparr>post_completestatus := completestatus,
                                        post_currentstatus := currentstatus\<rparr>
                                 else r) (post db)\<rparr>)"
  using assms
  by (simp add: patch_tasks_def update_status_available first_row_def)

lemma put_tasks_some:
  assumes "available db" and "\<not> falsy editedtask"
    and "[r \<leftarrow> post db. post_id r = i \<and> post_user_id r = userId] = r # rest"
  shows "put_tasks userId (Some i) editedtask editedtype db =
           (respond 200 (Row (Some (r\<lparr>post_task := editedtask, post_type := editedtype\<rparr>))),
            db\<lparr>issued := Suc (issued db),
               post := map (\<lambda>r. if post_id r = i \<and> post_user_id r = userId
                                 then r\<lparr>post_task := editedtask, post_type := editedtype\<rparr>
                                 else r) (post db)\<rparr>)"
  using assms
  by (simp add: put_tasks_def update_content_available first_row_def)

lemma patch_dtasks_eq: "patch_dtasks = patch_tasks"
  by (intro ext) (simp add: patch_dtasks_def patch_tasks_def)

lemma patch_taskschange_ok:
  assumes "available db"
  shows "patch_taskschange userId (Some i) completestatus currentstatus db =
           patch_tasks userId (Some i) completestatus currentstatus db"
  using assms
  by (simp add: patch_taskschange_def patch_tasks_def update_status_available)

lemma patch_tasks_failed:
  "\<not> available db \<or> id' = None \<Longrightarrow>
     patch_tasks userId id' completestatus currentstatus db =
       (respond 500 (Error ''Failed to update task status''), db\<lparr>issued := Suc (issued db)\<rparr>)"
  by (simp add: patch_tasks_def update_status_failed)

lemma patch_taskschange_failed:
  "\<not> available db \<or> id' = None \<Longrightarrow>
     patch_taskschange userId id' completestatus currentstatus db =
       (respond 500 (Error ''Failed to undo task''), db\<lparr>issued := Suc (issued db)\<rparr>)"
  by (simp add: patch_taskschange_def update_status_failed)

lemma foreign_rows:
  "(\<forall>r \<in> set rows. post_id r = i \<longrightarrow> post_user_id r \<noteq> userId) \<longleftrightarrow>
     [r \<leftarrow> rows. post_id r = i \<and> post_user_id r = userId] = []"
  by (auto simp: filter_empty_conv)

section \<open>Tasks of another user\<close>

text \<open>
  Claim C6. On a store that answers, when every row with the requested id (there may be
  none) is owned by another user than the caller, each of the three status routes and
  (for a non-empty editedtask) \<^verbatim>\<open>PUT /tasks/:id\<close> answers 404 with the message
  \<^verbatim>\<open>Task not found or unauthorized\<close> and leaves every row as it was; and the response
  is the same as on the store from which the rows with that id have been removed, so
  that it does not tell a row of another user from no row.
\<close>

theorem ownership_isolation:
  assumes "available db"
    and "\<forall>r \<in> set (post db). post_id r = i \<longrightarrow> post_user_id r \<noteq> userId"
  shows "fst (patch_tasks userId (Some i) completestatus currentstatus db) =
           respond 404 (Error ''Task not found or unauthorized'') \<and>
         post (snd (patch_tasks userId (Some i) completestatus currentstatus db)) = post db \<and>
         fst (patch_dtasks userId (Some i) completestatus currentstatus db) =
           respond 404 (Error ''Task not found or unauthorized'') \<and>
         post (snd (patch_dtasks userId (Some i) completestatus currentstatus db)) = post db \<and>
         fst (patch_taskschange userId (Some i) completestatus currentstatus db) =
           respond 404 (Error ''Task not found or unauthorized'') \<and>
         post (snd (patch_taskschange userId (Some i) completestatus currentstatus db)) =
           post db \<and>
         (\<not> falsy editedtask \<longrightarrow>
            fst (put_tasks userId (Some i) editedtask editedtype db) =
              respond 404 (Error ''Task not found or unauthorized'')) \<and>
         post (snd (put_tasks userId (Some i) editedtask editedtype db)) = post db \<and>
         fst (patch_tasks userId (Some i) completestatus currentstatus
                (db\<lparr>post := [r \<leftarrow> post db. post_id r \<noteq> i]\<rparr>)) =
           fst (patch_tasks userId (Some i) completestatus currentstatus db) \<and>
         fst (patch_dtasks userId (Some i) completestatus currentstatus
                (db\<lparr>post := [r \<leftarrow> post db. post_id r \<noteq> i]\<rparr>)) =
           fst (patch_dtasks userId (Some i) completestatus currentstatus db) \<and>
         fst (patch_taskschange userId (Some i) completestatus currentstatus
                (db\<lparr>post := [r \<leftarrow> post db. post_id r \<noteq> i]\<rparr>)) =
           fst (patch_taskschange userId (Some i) completestatus currentstatus db) \<and>
         fst (put_tasks userId (Some i) editedtask editedtype
                (db\<lparr>post := [r \<leftarrow> post db. post_id r \<noteq> i]\<rparr>)) =
           fst (put_tasks userId (Some i) editedtask editedtype db)"
proof -
  let ?gone = "db\<lparr>post := [r \<leftarrow> post db. post_id r \<noteq> i]\<rparr>"
  have n: "[r \<leftarrow> post db. post_id r = i \<and> post_user_id r = userId] = []"
    using assms(2) by (simp add: foreign_rows)
  have a': "available ?gone"
    using assms(1) by simp
  have n': "[r \<leftarrow> post ?gone. post_id r = i \<and> post_user_id r = userId] = []"
    by (auto simp: filter_empty_conv)
  have p: "put_tasks userId (Some i) editedtask editedtype db =
             (if falsy editedtask then (respond 400 (Error ''Task content is required''), db)
              else (respond 404 (Error ''Task not found or unauthorized''),
                    db\<lparr>issued := Suc (issued db)\<rparr>))"
    using put_tasks_none [OF assms(1) _ n] by (simp add: put_tasks_def)
  have p': "put_tasks userId (Some i) editedtask editedtype ?gone =
             (if falsy editedtask then (respond 400 (Error ''Task content is required''), ?gone)
              else (respond 404 (Error ''Task not found or unauthorized''),
                    ?gone\<lparr>issued := Suc (issued ?gone)\<rparr>))"
    using put_tasks_none [OF a' _ n'] by (simp add: put_tasks_def)
  show ?thesis
    unfolding patch_tasks_none [OF assms(1) n] patch_dtasks_none [OF assms(1) n]
      patch_taskschange_none [OF assms(1) n] patch_tasks_none [OF a' n']
      patch_dtasks_none [OF a' n'] patch_taskschange_none [OF a' n'] p p'
    by simp
qed

theorem ownership_isolation_witness:
  "available example_store \<and>
   [r \<leftarrow> post example_store. post_id r = 4] = [task_d] \<and> post_user_id task_d = 8 \<and>
   fst (patch_tasks 7 (Some 4) (Some True) (Some False) example_store) =
     respond 404 (Error ''Task not found or unauthorized'') \<and>
   post (snd (patch_tasks 7 (Some 4) (Some True) (Some False) example_store)) =
     post example_store \<and>
   \<not> falsy (Some ''pay the rent'') \<and>
   fst (put_tasks 7 (Some 4) (Some ''pay the rent'') (Some ''prank'') example_store) =
     respond 404 (Error ''Task not found or unauthorized'') \<and>
   post (snd (put_tasks 7 (Some 4) (Some ''pay the rent'') (Some ''prank'') example_store)) =
     post example_store \<and>
   fst (patch_tasks 7 (Some 4) (Some True) (Some False)
          (example_store\<lparr>post := [r \<leftarrow> post example_store. post_id r \<noteq> 4]\<rparr>)) =
     respond 404 (Error ''Task not found or unauthorized'')"
proof -
  have a: "available example_store"
    by (simp add: example_store_def)
  have f: "\<forall>r \<in> set (post example_store). post_id r = 4 \<longrightarrow> post_user_id r \<noteq> 7"
    by (simp add: example_defs)
  have d: "[r \<leftarrow> post example_store. post_id r = 4] = [task_d]" "post_user_id task_d = 8"
    by (simp_all add: example_defs)
  have v: "\<not> falsy (Some ''pay the rent'')"
    by (simp add: falsy_def)
  show ?thesis
    using a f d v
      ownership_isolation [OF a f, of "Some True" "Some False" "Some ''pay the rent''"
        "Some ''prank''"]
    by simp
qed

section \<open>The three status routes\<close>

text \<open>
  Claim C7, as stated, fails: the three status routes are not identical. When the
  statement is rejected (a path segment \<^verbatim>\<open>:id\<close> that is not an integer, or a store that
  is not available) \<^verbatim>\<open>PATCH /tasks/:id\<close> and \<^verbatim>\<open>PATCH /dtasks/:id\<close> answer 500 with
  \<^verbatim>\<open>Failed to update task status\<close>, and \<^verbatim>\<open>PATCH /taskschange/:id\<close> answers 500 with
  \<^verbatim>\<open>Failed to undo task\<close>.
\<close>

theorem status_routes_differ:
  "fst (patch_tasks 7 None (Some True) (Some False) example_store) =
     respond 500 (Error ''Failed to update task status'') \<and>
   fst (patch_dtasks 7 None (Some True) (Some False) example_store) =
     respond 500 (Error ''Failed to update task status'') \<and>
   fst (patch_taskschange 7 None (Some True) (Some False) example_store) =
     respond 500 (Error ''Failed to undo task'') \<and>
   fst (patch_taskschange 7 None (Some True) (Some False) example_store) \<noteq>
     fst (patch_tasks 7 None (Some True) (Some False) example_store) \<and>
   fst (patch_tasks 7 (Some 1) (Some True) (Some False) (example_store\<lparr>available := False\<rparr>)) =
     respond 500 (Error ''Failed to update task status'') \<and>
   fst (patch_taskschange 7 (Some 1) (Some True) (Some False)
          (example_store\<lparr>available := False\<rparr>)) =
     respond 500 (Error ''Failed to undo task'') \<and>
   fst (patch_taskschange 7 (Some 1) (Some True) (Some False)
          (example_store\<lparr>available := False\<rparr>)) \<noteq>
     fst (patch_tasks 7 (Some 1) (Some True) (Some False) (example_store\<lparr>available := False\<rparr>))"
  by (simp add: patch_tasks_failed patch_taskschange_failed patch_dtasks_eq)

text \<open>
  Claim C7, amended. \<^verbatim>\<open>PATCH /dtasks/:id\<close> is identical to \<^verbatim>\<open>PATCH /tasks/:id\<close>.
  \<^verbatim>\<open>PATCH /taskschange/:id\<close> has the same effect on the store and the same status code
  as the other two on every input, and the same response whenever the status is not 500;
  at 500 the messages are the two above. On a store that answers, for an integer id,
  the routes overwrite \<^verbatim>\<open>completestatus\<close> and \<^verbatim>\<open>currentstatus\<close> of the rows with that id
  owned by the caller, unconditionally, answer 404 when there is no such row and
  otherwise 200 with the first such row as updated.
\<close>

theorem status_routes_agree:
  "patch_dtasks userId id' completestatus currentstatus db =
     patch_tasks userId id' completestatus currentstatus db \<and>
   snd (patch_taskschange userId id' completestatus currentstatus db) =
     snd (patch_tasks userId id' completestatus currentstatus db) \<and>
   status (fst (patch_taskschange userId id' completestatus currentstatus db)) =
     status (fst (patch_tasks userId id' completestatus currentstatus db)) \<and>
   (status (fst (patch_tasks userId id' completestatus currentstatus db)) \<noteq> 500 \<longrightarrow>
      patch_taskschange userId id' completestatus currentstatus db =
        patch_tasks userId id' completestatus currentstatus db) \<and>
   (status (fst (patch_tasks userId id' completestatus currentstatus db)) = 500 \<longrightarrow>
      fst (patch_tasks userId id' completestatus currentstatus db) =
        respond 500 (Error ''Failed to update task status'') \<and>
      fst (patch_taskschange userId id' completestatus currentstatus db) =
        respond 500 (Error ''Failed to undo task'')) \<and>
   (\<forall>i. available db \<and> id' = Some i \<longrightarrow>
      post (snd (patch_tasks userId id' completestatus currentstatus db)) =
        map (\<lambda>r. if post_id r = i \<and> post_user_id r = userId
                  then r\<lparr>post_completestatus := completestatus,
                         post_currentstatus := currentstatus\<rparr>
                  else r) (post db) \<and>
      (\<not> (\<exists>r \<in> set (post db). post_id r = i \<and> post_user_id r = userId) \<longrightarrow>
         fst (patch_tasks userId id' completestatus currentstatus db) =
           respond 404 (Error ''Task not found or unauthorized'')) \<and>
      (\<forall>r rest. [r \<leftarrow> post db. post_id r = i \<and> post_user_id r = userId] = r # rest \<longrightarrow>
         fst (patch_tasks userId id' completestatus currentstatus db) =
           respond 200 (Row (Some (r\<lparr>post_completestatus := completestatus,
                                      post_currentstatus := currentstatus\<rparr>)))))"
proof -
  have d: "patch_dtasks userId id' completestatus currentstatus db =
     patch_tasks userId id' completestatus currentstatus db"
    by (simp add: patch_dtasks_eq)
  consider (failed) "\<not> available db \<or> id' = None" | (ok) i where "available db" "id' = Some i"
    by (cases id') auto
  then have t: "snd (patch_taskschange userId id' completestatus currentstatus db) =
     snd (patch_tasks userId id' completestatus currentstatus db) \<and>
   status (fst (patch_taskschange userId id' completestatus currentstatus db)) =
     status (fst (patch_tasks userId id' completestatus currentstatus db)) \<and>
   (status (fst (patch_tasks userId id' completestatus currentstatus db)) \<noteq> 500 \<longrightarrow>
      patch_taskschange userId id' completestatus currentstatus db =
        patch_tasks userId id' completestatus currentstatus db) \<and>
   (status (fst (patch_tasks userId id' completestatus currentstatus db)) = 500 \<longrightarrow>
      fst (patch_tasks userId id' completestatus currentstatus db) =
        respond 500 (Error ''Failed to update task status'') \<and>
      fst (patch_taskschange userId id' completestatus currentstatus db) =
        respond 500 (Error ''Failed to undo task''))"
  proof cases
    case failed
    then show ?thesis
      by (simp add: patch_tasks_failed patch_taskschange_failed)
  next
    case ok
    have e: "patch_taskschange userId id' completestatus currentstatus db =
        patch_tasks userId id' completestatus currentstatus db"
      using ok by (simp add: patch_taskschange_ok)
    have "status (fst (patch_tasks userId id' completestatus currentstatus db)) \<noteq> 500"
      using ok by (simp add: patch_tasks_def update_status_available)
    with e show ?thesis
      by simp
  qed
  have o: "\<forall>i. available db \<and> id' = Some i \<longrightarrow>
      post (snd (patch_tasks userId id' completestatus currentstatus db)) =
        map (\<lambda>r. if post_id r = i \<and> post_user_id r = userId
                  then r\<lparr>post_completestatus := completestatus,
                         post_currentstatus := currentstatus\<rparr>
                  else r) (post db) \<and>
      (\<not> (\<exists>r \<in> set (post db). post_id r = i \<and> post_user_id r = userId) \<longrightarrow>
         fst (patch_tasks userId id' completestatus currentstatus db) =
           respond 404 (Error ''Task not found or unauthorized'')) \<and>
      (\<forall>r rest. [r \<leftarrow> post db. post_id r = i \<and> post_user_id r = userId] = r # rest \<longrightarrow>
         fst (patch_tasks userId id' completestatus currentstatus db) =
           respond 200 (Row (Some (r\<lparr>post_completestatus := completestatus,
                                      post_currentstatus := currentstatus\<rparr>))))"
  proof (intro allI impI conjI)
    fix i
    assume h: "available db \<and> id' = Some i"
    show "post (snd (patch_tasks userId id' completestatus currentstatus db)) =
        map (\<lambda>r. if post_id r = i \<and> post_user_id r = userId
                  then r\<lparr>post_completestatus := completestatus,
                         post_currentstatus := currentstatus\<rparr>
                  else r) (post db)"
      using h by (simp add: patch_tasks_def update_status_available)
  next
    fix i
    assume h: "available db \<and> id' = Some i"
      and "\<not> (\<exists>r \<in> set (post db). post_id r = i \<and> post_user_id r = userId)"
    then have "[r \<leftarrow> post db. post_id r = i \<and> post_user_id r = userId] = []"
      by (auto simp: filter_empty_conv)
    with h show "fst (patch_tasks userId id' completestatus currentstatus db) =
           respond 404 (Error ''Task not found or unauthorized'')"
      by (simp add: patch_tasks_none)
  next
    fix i r rest
    assume "available db \<and> id' = Some i"
      and "[r \<leftarrow> post db. post_id r = i \<and> post_user_id r = userId] = r # rest"
    then show "fst (patch_tasks userId id' completestatus currentstatus db) =
           respond 200 (Row (Some (r\<lparr>post_completestatus := completestatus,
                                      post_currentstatus := currentstatus\<rparr>)))"
      by (simp add: patch_tasks_some)
  qed
  show ?thesis
    using d t o by blast
qed

theorem status_routes_agree_witness:
  "status (fst (patch_tasks 7 (Some 1) (Some True) (Some False) example_store)) \<noteq> 500 \<and>
   patch_dtasks 7 (Some 1) (Some True) (Some False) example_store =
     patch_tasks 7 (Some 1) (Some True) (Some False) example_store \<and>
   patch_taskschange 7 (Some 1) (Some True) (Some False) example_store =
     patch_tasks 7 (Some 1) (Some True) (Some False) example_store \<and>
   available example_store \<and>
   [r \<leftarrow> post example_store. post_id r = 1 \<and> post_user_id r = 7] = [task_a] \<and>
   fst (patch_tasks 7 (Some 1) (Some True) (Some False) example_store) =
     respond 200 (Row (Some (task_a\<lparr>post_completestatus := Some True,
                                    post_currentstatus := Some False\<rparr>))) \<and>
   \<not> (\<exists>r \<in> set (post example_store). post_id r = 4 \<and> post_user_id r = 7) \<and>
   fst (patch_tasks 7 (Some 4) (Some True) (Some False) example_store) =
     respond 404 (Error ''Task not found or unauthorized'') \<and>
   status (fst (patch_tasks 7 None (Some True) (Some False) example_store)) = 500 \<and>
   fst (patch_taskschange 7 None (Some True) (Some False) example_store) =
     respond 500 (Error ''Failed to undo task'')"
proof -
  have a: "available example_store"
    by (simp add: example_store_def)
  have f: "[r \<leftarrow> post example_store. post_id r = 1 \<and> post_user_id r = 7] = [task_a]"
    by (simp add: example_defs)
  have s: "status (fst (patch_tasks 7 (Some 1) (Some True) (Some False) example_store)) \<noteq> 500"
    by (simp add: patch_tasks_some [OF a f])
  have s': "status (fst (patch_tasks 7 None (Some True) (Some False) example_store)) = 500"
    by (simp add: patch_tasks_failed)
  note w1 = status_routes_agree [of 7 "Some 1" "Some True" "Some False" example_store]
  note w2 = status_routes_agree [of 7 None "Some True" "Some False" example_store]
  note w3 = w1 [THEN conjunct2, THEN conjunct2, THEN conjunct2, THEN conjunct2, THEN conjunct2,
              rule_format, of 1, THEN conjunct2, THEN conjunct2, rule_format, of task_a "[]"]
  have n: "\<not> (\<exists>r \<in> set (post example_store). post_id r = 4 \<and> post_user_id r = 7)"
    by (simp add: example_defs)
  note w4 = status_routes_agree [of 7 "Some 4" "Some True" "Some False" example_store,
              THEN conjunct2, THEN conjunct2, THEN conjunct2, THEN conjunct2, THEN conjunct2,
              rule_format, of 4, THEN conjunct2, THEN conjunct1, rule_format]
  have c4: "fst (patch_tasks 7 (Some 4) (Some True) (Some False) example_store) =
     respond 404 (Error ''Task not found or unauthorized'')"
    using w4 a n by blast
  show ?thesis
    using a f s s' w1 w2 w3 n c4 by simp
qed

section \<open>Editing a task\<close>

lemma put_tasks_invalid:
  "falsy editedtask \<Longrightarrow>
     put_tasks userId id' editedtask editedtype db =
       (respond 400 (Error ''Task content is required''), db)"
  by (simp add: put_tasks_def)

lemma map_update_other:
  "(\<And>x. g (f x) = g x) \<Longrightarrow> map g (map (\<lambda>x. if P x then f x else x) rows) = map g rows"
  by (induction rows) simp_all

lemma put_tasks_fields:
  assumes "available db" and "\<not> falsy editedtask"
    and "[r \<leftarrow> post db. post_id r = i \<and> post_user_id r = userId] = r # rest"
  shows "map post_id (post (snd (put_tasks userId (Some i) editedtask editedtype db))) =
          map post_id (post db)"
    and "map post_user_id (post (snd (put_tasks userId (Some i) editedtask editedtype db))) =
          map post_user_id (post db)"
    and "map post_timeofentry (post (snd (put_tasks userId (Some i) editedtask editedtype db))) =
          map post_timeofentry (post db)"
    and "map post_completestatus (post (snd (put_tasks userId (Some i) editedtask editedtype db))) =
          map post_completestatus (post db)"
    and "map post_remindertime (post (snd (put_tasks userId (Some i) editedtask editedtype db))) =
          map post_remindertime (post db)"
    and "map post_currentstatus (post (snd (put_tasks userId (Some i) editedtask editedtype db))) =
          map post_currentstatus (post db)"
    and "logindata (snd (put_tasks userId (Some i) editedtask editedtype db)) = logindata db"
  unfolding put_tasks_some [OF assms]
  by (simp_all add: map_update_other)

lemma updated_row_cases:
  assumes "x \<in> set (map (\<lambda>r. if P r then f r else r) rows)"
  shows "(\<exists>y \<in> set rows. P y \<and> x = f y) \<or> (x \<in> set rows \<and> \<not> P x)"
  using assms by (induction rows) (auto split: if_splits)

lemma put_tasks_null_type:
  assumes a: "available db" and v: "\<not> falsy editedtask"
    and f: "[r \<leftarrow> post db. post_id r = i \<and> post_user_id r = userId] = r # rest"
  shows "\<forall>x \<in> set (post (snd (put_tasks userId (Some i) editedtask None db))).
            post_id x = i \<and> post_user_id x = userId \<longrightarrow> post_type x = None"
proof
  fix x
  assume "x \<in> set (post (snd (put_tasks userId (Some i) editedtask None db)))"
  then have "x \<in> set (map (\<lambda>r. if post_id r = i \<and> post_user_id r = userId
                                 then r\<lparr>post_task := editedtask, post_type := None\<rparr>
                                 else r) (post db))"
    by (simp add: put_tasks_some [OF a v f])
  then have "(\<exists>y \<in> set (post db). (post_id y = i \<and> post_user_id y = userId) \<and>
                x = y\<lparr>post_task := editedtask, post_type := None\<rparr>) \<or>
             (x \<in> set (post db) \<and> \<not> (post_id x = i \<and> post_user_id x = userId))"
    by (rule updated_row_cases)
  then show "post_id x = i \<and> post_user_id x = userId \<longrightarrow> post_type x = None"
  proof
    assume "\<exists>y \<in> set (post db). (post_id y = i \<and> post_user_id y = userId) \<and>
                x = y\<lparr>post_task := editedtask, post_type := None\<rparr>"
    then obtain y where "x = y\<lparr>post_task := editedtask, post_type := None\<rparr>"
      by (rule bexE) (rule that, erule conjunct2)
    then show ?thesis
      by simp
  next
    assume "x \<in> set (post db) \<and> \<not> (post_id x = i \<and> post_user_id x = userId)"
    then show ?thesis
      by blast
  qed
qed

text \<open>
  Claim C8. \<^verbatim>\<open>PUT /tasks/:id\<close> answers 400 when editedtask is empty. With a non-empty
  editedtask, on a store that answers and for an integer id, it answers 404 when the
  caller owns no row with that id, and leaves the rows as they were; otherwise it
  answers 200 with the row as updated, and the rows the caller owns with that id get
  \<^verbatim>\<open>task\<close> and \<^verbatim>\<open>type\<close> overwritten while every other column of every row, and the table
  of users, stay as they were. When editedtype is absent, \<^verbatim>\<open>type\<close> is overwritten with
  NULL.
\<close>

theorem edit_content_contract:
  "(falsy editedtask \<longrightarrow>
      fst (put_tasks userId id' editedtask editedtype db) =
        respond 400 (Error ''Task content is required'')) \<and>
   (\<not> falsy editedtask \<and> available db \<and>
    \<not> (\<exists>r \<in> set (post db). post_id r = i \<and> post_user_id r = userId) \<longrightarrow>
      fst (put_tasks userId (Some i) editedtask editedtype db) =
        respond 404 (Error ''Task not found or unauthorized'') \<and>
      post (snd (put_tasks userId (Some i) editedtask editedtype db)) = post db) \<and>
   (\<forall>r rest.
      \<not> falsy editedtask \<and> available db \<and>
      [r \<leftarrow> post db. post_id r = i \<and> post_user_id r = userId] = r # rest \<longrightarrow>
        fst (put_tasks userId (Some i) editedtask editedtype db) =
          respond 200 (Row (Some (r\<lparr>post_task := editedtask, post_type := editedtype\<rparr>))) \<and>
        post (snd (put_tasks userId (Some i) editedtask editedtype db)) =
          map (\<lambda>x. if post_id x = i \<and> post_user_id x = userId
                    then x\<lparr>post_task := editedtask, post_type := editedtype\<rparr>
                    else x) (post db) \<and>
        map post_id (post (snd (put_tasks userId (Some i) editedtask editedtype db))) =
          map post_id (post db) \<and>
        map post_user_id (post (snd (put_tasks userId (Some i) editedtask editedtype db))) =
          map post_user_id (post db) \<and>
        map post_timeofentry (post (snd (put_tasks userId (Some i) editedtask editedtype db))) =
          map post_timeofentry (post db) \<and>
        map post_completestatus (post (snd (put_tasks userId (Some i) editedtask editedtype db))) =
          map post_completestatus (post db) \<and>
        map post_remindertime (post (snd (put_tasks userId (Some i) editedtask editedtype db))) =
          map post_remindertime (post db) \<and>
        map post_currentstatus (post (snd (put_tasks userId (Some i) editedtask editedtype db))) =
          map post_currentstatus (post db) \<and>
        logindata (snd (put_tasks userId (Some i) editedtask editedtype db)) = logindata db) \<and>
   (\<forall>r rest.
      \<not> falsy editedtask \<and> available db \<and>
      [r \<leftarrow> post db. post_id r = i \<and> post_user_id r = userId] = r # rest \<longrightarrow>
        fst (put_tasks userId (Some i) editedtask None db) =
          respond 200 (Row (Some (r\<lparr>post_task := editedtask, post_type := None\<rparr>))) \<and>
        (\<forall>x \<in> set (post (snd (put_tasks userId (Some i) editedtask None db))).
            post_id x = i \<and> post_user_id x = userId \<longrightarrow> post_type x = None))"
proof (intro conjI allI impI)
  assume "falsy editedtask"
  then show "fst (put_tasks userId id' editedtask editedtype db) =
        respond 400 (Error ''Task content is required'')"
    by (simp add: put_tasks_invalid)
next
  assume h: "\<not> falsy editedtask \<and> available db \<and>
    \<not> (\<exists>r \<in> set (post db). post_id r = i \<and> post_user_id r = userId)"
  then have n: "[r \<leftarrow> post db. post_id r = i \<and> post_user_id r = userId] = []"
    by (simp add: filter_empty_conv)
  have a: "available db" and v: "\<not> falsy editedtask"
    using h by simp_all
  show "fst (put_tasks userId (Some i) editedtask editedtype db) =
        respond 404 (Error ''Task not found or unauthorized'')"
    by (simp add: put_tasks_none [OF a v n])
  show "post (snd (put_tasks userId (Some i) editedtask editedtype db)) = post db"
    by (simp add: put_tasks_none [OF a v n])
next
  fix r rest
  assume h: "\<not> falsy editedtask \<and> available db \<and>
      [r \<leftarrow> post db. post_id r = i \<and> post_user_id r = userId] = r # rest"
  have a: "available db" and v: "\<not> falsy editedtask"
    and f: "[r \<leftarrow> post db. post_id r = i \<and> post_user_id r = userId] = r # rest"
    using h by simp_all
  show "fst (put_tasks userId (Some i) editedtask editedtype db) =
          respond 200 (Row (Some (r\<lparr>post_task := editedtask, post_type := editedtype\<rparr>)))"
    by (simp add: put_tasks_some [OF a v f])
  show "post (snd (put_tasks userId (Some i) editedtask editedtype db)) =
          map (\<lambda>x. if post_id x = i \<and> post_user_id x = userId
                    then x\<lparr>post_task := editedtask, post_type := editedtype\<rparr>
                    else x) (post db)"
    by (simp add: put_tasks_some [OF a v f])
  show "map post_id (post (snd (put_tasks userId (Some i) editedtask editedtype db))) =
          map post_id (post db)"
    by (rule put_tasks_fields(1) [OF a v f])
  show "map post_user_id (post (snd (put_tasks userId (Some i) editedtask editedtype db))) =
          map post_user_id (post db)"
    by (rule put_tasks_fields(2) [OF a v f])
  show "map post_timeofentry (post (snd (put_tasks userId (Some i) editedtask editedtype db))) =
          map post_timeofentry (post db)"
    by (rule put_tasks_fields(3) [OF a v f])
  show "map post_completestatus (post (snd (put_tasks userId (Some i) editedtask editedtype db))) =
          map post_completestatus (post db)"
    by (rule put_tasks_fields(4) [OF a v f])
  show "map post_remindertime (post (snd (put_tasks userId (Some i) editedtask editedtype db))) =
          map post_remindertime (post db)"
    by (rule put_tasks_fields(5) [OF a v f])
  show "map post_currentstatus (post (snd (put_tasks userId (Some i) editedtask editedtype db))) =
          map post_currentstatus (post db)"
    by (rule put_tasks_fields(6) [OF a v f])
  show "logindata (snd (put_tasks userId (Some i) editedtask editedtype db)) = logindata db"
    by (rule put_tasks_fields(7) [OF a v f])
next
  fix r rest
  assume h: "\<not> falsy editedtask \<and> available db \<and>
      [r \<leftarrow> post db. post_id r = i \<and> post_user_id r = userId] = r # rest"
  have a: "available db" and v: "\<not> falsy editedtask"
    and f: "[r \<leftarrow> post db. post_id r = i \<and> post_user_id r = userId] = r # rest"
    using h by simp_all
  show "fst (put_tasks userId (Some i) editedtask None db) =
          respond 200 (Row (Some (r\<lparr>post_task := editedtask, post_type := None\<rparr>)))"
    by (simp add: put_tasks_some [OF a v f])
  show "\<forall>x \<in> set (post (snd (put_tasks userId (Some i) editedtask None db))).
            post_id x = i \<and> post_user_id x = userId \<longrightarrow> post_type x = None"
    by (rule put_tasks_null_type [OF a v f])
qed

theorem edit_content_contract_witness:
  "falsy (Some []) \<and>
   fst (put_tasks 7 (Some 1) (Some []) (Some ''work'') example_store) =
     respond 400 (Error ''Task content is required'') \<and>
   \<not> falsy (Some ''write the report'') \<and> available example_store \<and>
   \<not> (\<exists>r \<in> set (post example_store). post_id r = 4 \<and> post_user_id r = 7) \<and>
   fst (put_tasks 7 (Some 4) (Some ''write the report'') (Some ''office'') example_store) =
     respond 404 (Error ''Task not found or unauthorized'') \<and>
   [r \<leftarrow> post example_store. post_id r = 1 \<and> post_user_id r = 7] = [task_a] \<and>
   fst (put_tasks 7 (Some 1) (Some ''write the report'') (Some ''office'') example_store) =
     respond 200 (Row (Some (task_a\<lparr>post_task := Some ''write the report'',
                                    post_type := Some ''office''\<rparr>))) \<and>
   post (snd (put_tasks 7 (Some 1) (Some ''write the report'') (Some ''office'') example_store)) =
     [task_a\<lparr>post_task := Some ''write the report'', post_type := Some ''office''\<rparr>,
      task_b, task_c, task_d] \<and>
   fst (put_tasks 7 (Some 1) (Some ''write the report'') None example_store) =
     respond 200 (Row (Some (task_a\<lparr>post_task := Some ''write the report'',
                                    post_type := None\<rparr>)))"
proof -
  have v: "falsy (Some [])" "\<not> falsy (Some ''write the report'')"
    by (simp_all add: falsy_def)
  have a: "available example_store"
    by (simp add: example_store_def)
  have n: "\<not> (\<exists>r \<in> set (post example_store). post_id r = 4 \<and> post_user_id r = 7)"
    by (simp add: example_defs)
  have f: "[r \<leftarrow> post example_store. post_id r = 1 \<and> post_user_id r = 7] = [task_a]"
    by (simp add: example_defs)
  have m: "map (\<lambda>x. if post_id x = 1 \<and> post_user_id x = 7
                    then x\<lparr>post_task := Some ''write the report'', post_type := Some ''office''\<rparr>
                    else x) (post example_store) =
           [task_a\<lparr>post_task := Some ''write the report'', post_type := Some ''office''\<rparr>,
            task_b, task_c, task_d]"
    by (simp add: example_defs)
  note e1 = edit_content_contract [of "Some []" 7 "Some 1" "Some ''work''" example_store,
              THEN conjunct1]
  note e2 = edit_content_contract [of "Some ''write the report''" 7 "Some 4" "Some ''office''"
              example_store 4, THEN conjunct2, THEN conjunct1]
  note e3 = edit_content_contract [of "Some ''write the report''" 7 "Some 1" "Some ''office''"
              example_store 1, THEN conjunct2, THEN conjunct2, THEN conjunct1, rule_format,
              of task_a "[]"]
  note e4 = edit_content_contract [of "Some ''write the report''" 7 "Some 1" "Some ''office''"
              example_store 1, THEN conjunct2, THEN conjunct2, THEN conjunct2, rule_format,
              of task_a "[]"]
  have c1: "fst (put_tasks 7 (Some 1) (Some []) (Some ''work'') example_store) =
     respond 400 (Error ''Task content is required'')"
    using e1 v(1) by blast
  have c2: "fst (put_tasks 7 (Some 4) (Some ''write the report'') (Some ''office'') example_store) =
     respond 404 (Error ''Task not found or unauthorized'')"
    using e2 v(2) a n by blast
  have h: "\<not> falsy (Some ''write the report'') \<and> available example_store \<and>
      [r \<leftarrow> post example_store. post_id r = 1 \<and> post_user_id r = 7] = [task_a]"
    using v(2) a f by blast
  note c3 = e3 [OF h, THEN conjunct1]
  note c4 = e3 [OF h, THEN conjunct2, THEN conjunct1]
  note c5 = e4 [OF h, THEN conjunct1]
  show ?thesis
    using v a n f c1 c2 c3 c4 [unfolded m] c5 by blast
qed

section \<open>No validation of the flags\<close>

lemma post_tasks_invalid:
  "falsy task \<or> falsy type \<or> falsy_time remindertime \<Longrightarrow>
     post_tasks userId task type timeofentry completestatus remindertime currentstatus db =
       (respond 400 (Error ''Task, type, and remindertime are required''), db)"
  by (auto simp: post_tasks_def)

lemma post_tasks_created:
  assumes "\<not> (falsy task \<or> falsy type \<or> falsy_time remindertime)" and "available db"
  shows "post_tasks userId task type timeofentry completestatus remindertime currentstatus db =
           (respond 201 (Row (Some
              \<lparr>post_id = post_id_seq db, post_user_id = userId, post_task = task,
                post_type = type, post_timeofentry = timeofentry,
                post_completestatus = completestatus, post_remindertime = remindertime,
                post_currentstatus = currentstatus\<rparr>)),
            db\<lparr>issued := Suc (issued db),
               post := post db @
                 [\<lparr>post_id = post_id_seq db, post_user_id = userId, post_task = task,
                   post_type = type, post_timeofentry = timeofentry,
                   post_completestatus = completestatus, post_remindertime = remindertime,
                   post_currentstatus = currentstatus\<rparr>],
               post_id_seq := post_id_seq db + 1\<rparr>)"
  using assms
  by (simp add: post_tasks_def query_def Let_def insert_post_def first_row_def)

lemma post_tasks_failed:
  assumes "\<not> (falsy task \<or> falsy type \<or> falsy_time remindertime)" and "\<not> available db"
  shows "post_tasks userId task type timeofentry completestatus remindertime currentstatus db =
           (respond 500 (Error ''Failed to add task''), db\<lparr>issued := Suc (issued db)\<rparr>)"
  using assms
  by (simp add: post_tasks_def query_def Let_def)

lemma post_tasks_status:
  "status (fst (post_tasks userId task type timeofentry completestatus remindertime
                  currentstatus db)) = 400 \<longleftrightarrow>
     falsy task \<or> falsy type \<or> falsy_time remindertime"
proof (cases "falsy task \<or> falsy type \<or> falsy_time remindertime")
  case True
  then show ?thesis
    by (simp add: post_tasks_invalid)
next
  case False
  then show ?thesis
    by (cases "available db") (simp_all add: post_tasks_created post_tasks_failed)
qed

lemma patch_tasks_status:
  "status (fst (patch_tasks userId id' completestatus currentstatus db)) \<in> {200, 404, 500}"
proof (cases "\<not> available db \<or> id' = None")
  case True
  then show ?thesis
    by (simp add: patch_tasks_failed)
next
  case False
  then obtain i where "id' = Some i" "available db"
    by auto
  then show ?thesis
    by (simp add: patch_tasks_def update_status_available)
qed

lemma patch_taskschange_status:
  "status (fst (patch_taskschange userId id' completestatus currentstatus db)) \<in> {200, 404, 500}"
proof (cases "\<not> available db \<or> id' = None")
  case True
  then show ?thesis
    by (simp add: patch_taskschange_failed)
next
  case False
  then obtain i where "id' = Some i" "available db"
    by auto
  then show ?thesis
    by (simp add: patch_taskschange_def update_status_available)
qed

lemma patch_tasks_rows:
  assumes "available db"
  shows "post (snd (patch_tasks userId (Some i) completestatus currentstatus db)) =
           map (\<lambda>r. if post_id r = i \<and> post_user_id r = userId
                     then r\<lparr>post_completestatus := completestatus,
                            post_currentstatus := currentstatus\<rparr>
                     else r) (post db)"
  using assms by (simp add: patch_tasks_def update_status_available)

text \<open>
  Claim C9. \<^verbatim>\<open>POST /tasks\<close> answers 400 exactly when task, type or remindertime is
  empty, whatever timeofentry, completestatus and currentstatus are; on a store that
  answers, the row it adds (and returns with 201) holds the three values as they were
  supplied, an absent value as NULL. The status routes never answer 400; on a store that
  answers they write the two flags supplied, an absent one as NULL, to the matching rows.
\<close>

theorem flags_written_verbatim:
  "(status (fst (post_tasks userId task type timeofentry completestatus remindertime
                   currentstatus db)) = 400 \<longleftrightarrow>
      falsy task \<or> falsy type \<or> falsy_time remindertime) \<and>
   (\<not> (falsy task \<or> falsy type \<or> falsy_time remindertime) \<and> available db \<longrightarrow>
      fst (post_tasks userId task type timeofentry completestatus remindertime
             currentstatus db) =
        respond 201 (Row (Some
          \<lparr>post_id = post_id_seq db, post_user_id = userId, post_task = task,
            post_type = type, post_timeofentry = timeofentry,
            post_completestatus = completestatus, post_remindertime = remindertime,
            post_currentstatus = currentstatus\<rparr>)) \<and>
      post (snd (post_tasks userId task type timeofentry completestatus remindertime
                   currentstatus db)) =
        post db @
          [\<lparr>post_id = post_id_seq db, post_user_id = userId, post_task = task,
            post_type = type, post_timeofentry = timeofentry,
            post_completestatus = completestatus, post_remindertime = remindertime,
            post_currentstatus = currentstatus\<rparr>]) \<and>
   status (fst (patch_tasks userId id' completestatus currentstatus db)) \<noteq> 400 \<and>
   status (fst (patch_dtasks userId id' completestatus currentstatus db)) \<noteq> 400 \<and>
   status (fst (patch_taskschange userId id' completestatus currentstatus db)) \<noteq> 400 \<and>
   (available db \<longrightarrow>
      post (snd (patch_tasks userId (Some i) completestatus currentstatus db)) =
        map (\<lambda>r. if post_id r = i \<and> post_user_id r = userId
                  then r\<lparr>post_completestatus := completestatus,
                         post_currentstatus := currentstatus\<rparr>
                  else r) (post db)) \<and>
   (available db \<longrightarrow>
      post (snd (patch_dtasks userId (Some i) completestatus currentstatus db)) =
        map (\<lambda>r. if post_id r = i \<and> post_user_id r = userId
                  then r\<lparr>post_completestatus := completestatus,
                         post_currentstatus := currentstatus\<rparr>
                  else r) (post db)) \<and>
   (available db \<longrightarrow>
      post (snd (patch_taskschange userId (Some i) completestatus currentstatus db)) =
        map (\<lambda>r. if post_id r = i \<and> post_user_id r = userId
                  then r\<lparr>post_completestatus := completestatus,
                         post_currentstatus := currentstatus\<rparr>
                  else r) (post db)) \<and>
   (\<forall>r rest. available db \<and>
      [r \<leftarrow> post db. post_id r = i \<and> post_user_id r = userId] = r # rest \<longrightarrow>
        fst (patch_tasks userId (Some i) completestatus currentstatus db) =
          respond 200 (Row (Some (r\<lparr>post_completestatus := completestatus,
                                     post_currentstatus := currentstatus\<rparr>))))"
proof (intro conjI allI impI)
  show "status (fst (post_tasks userId task type timeofentry completestatus remindertime
                   currentstatus db)) = 400 \<longleftrightarrow>
      falsy task \<or> falsy type \<or> falsy_time remindertime"
    by (rule post_tasks_status)
next
  assume h: "\<not> (falsy task \<or> falsy type \<or> falsy_time remindertime) \<and> available db"
  then have v: "\<not> (falsy task \<or> falsy type \<or> falsy_time remindertime)" and a: "available db"
    by simp_all
  show "fst (post_tasks userId task type timeofentry completestatus remindertime
             currentstatus db) =
        respond 201 (Row (Some
          \<lparr>post_id = post_id_seq db, post_user_id = userId, post_task = task,
            post_type = type, post_timeofentry = timeofentry,
            post_completestatus = completestatus, post_remindertime = remindertime,
            post_currentstatus = currentstatus\<rparr>))"
    by (simp add: post_tasks_created [OF v a])
  show "post (snd (post_tasks userId task type timeofentry completestatus remindertime
                   currentstatus db)) =
        post db @
          [\<lparr>post_id = post_id_seq db, post_user_id = userId, post_task = task,
            post_type = type, post_timeofentry = timeofentry,
            post_completestatus = completestatus, post_remindertime = remindertime,
            post_currentstatus = currentstatus\<rparr>]"
    by (simp add: post_tasks_created [OF v a])
next
  show "status (fst (patch_tasks userId id' completestatus currentstatus db)) \<noteq> 400"
    using patch_tasks_status [of userId id' completestatus currentstatus db] by auto
next
  show "status (fst (patch_dtasks userId id' completestatus currentstatus db)) \<noteq> 400"
    using patch_tasks_status [of userId id' completestatus currentstatus db]
    by (auto simp: patch_dtasks_eq)
next
  show "status (fst (patch_taskschange userId id' completestatus currentstatus db)) \<noteq> 400"
    using patch_taskschange_status [of userId id' completestatus currentstatus db] by auto
next
  assume "available db"
  then show "post (snd (patch_tasks userId (Some i) completestatus currentstatus db)) =
        map (\<lambda>r. if post_id r = i \<and> post_user_id r = userId
                  then r\<lparr>post_completestatus := completestatus,
                         post_currentstatus := currentstatus\<rparr>
                  else r) (post db)"
    by (rule patch_tasks_rows)
next
  assume "available db"
  then show "post (snd (patch_dtasks userId (Some i) completestatus currentstatus db)) =
        map (\<lambda>r. if post_id r = i \<and> post_user_id r = userId
                  then r\<lparr>post_completestatus := completestatus,
                         post_currentstatus := currentstatus\<rparr>
                  else r) (post db)"
    by (simp add: patch_dtasks_eq patch_tasks_rows)
next
  assume "available db"
  then show "post (snd (patch_taskschange userId (Some i) completestatus currentstatus db)) =
        map (\<lambda>r. if post_id r = i \<and> post_user_id r = userId
                  then r\<lparr>post_completestatus := completestatus,
                         post_currentstatus := currentstatus\<rparr>
                  else r) (post db)"
    by (simp add: patch_taskschange_ok patch_tasks_rows)
next
  fix r rest
  assume h: "available db \<and>
      [r \<leftarrow> post db. post_id r = i \<and> post_user_id r = userId] = r # rest"
  then have a: "available db"
    and f: "[r \<leftarrow> post db. post_id r = i \<and> post_user_id r = userId] = r # rest"
    by simp_all
  show "fst (patch_tasks userId (Some i) completestatus currentstatus db) =
          respond 200 (Row (Some (r\<lparr>post_completestatus := completestatus,
                                     post_currentstatus := currentstatus\<rparr>)))"
    by (simp add: patch_tasks_some [OF a f])
qed

theorem flags_written_verbatim_witness:
  "\<not> (falsy (Some ''call mum'') \<or> falsy (Some ''family'') \<or> falsy_time (Some 9000)) \<and>
   available example_store \<and>
   status (fst (post_tasks 7 (Some ''call mum'') (Some ''family'') None None (Some 9000) None
                  example_store)) \<noteq> 400 \<and>
   fst (post_tasks 7 (Some ''call mum'') (Some ''family'') None None (Some 9000) None
          example_store) =
     respond 201 (Row (Some
       \<lparr>post_id = 5, post_user_id = 7, post_task = Some ''call mum'',
         post_type = Some ''family'', post_timeofentry = None,
         post_completestatus = None, post_remindertime = Some 9000,
         post_currentstatus = None\<rparr>)) \<and>
   post (snd (post_tasks 7 (Some ''call mum'') (Some ''family'') None None (Some 9000) None
                example_store)) =
     [task_a, task_b, task_c, task_d,
      \<lparr>post_id = 5, post_user_id = 7, post_task = Some ''call mum'',
        post_type = Some ''family'', post_timeofentry = None,
        post_completestatus = None, post_remindertime = Some 9000,
        post_currentstatus = None\<rparr>] \<and>
   [r \<leftarrow> post example_store. post_id r = 1 \<and> post_user_id r = 7] = [task_a] \<and>
   fst (patch_tasks 7 (Some 1) None None example_store) =
     respond 200 (Row (Some (task_a\<lparr>post_completestatus := None,
                                    post_currentstatus := None\<rparr>))) \<and>
   post (snd (patch_tasks 7 (Some 1) None None example_store)) =
     [task_a\<lparr>post_completestatus := None, post_currentstatus := None\<rparr>,
      task_b, task_c, task_d]"
proof -
  have v: "\<not> (falsy (Some ''call mum'') \<or> falsy (Some ''family'') \<or> falsy_time (Some 9000))"
    by (simp add: falsy_def falsy_time_def)
  have a: "available example_store"
    by (simp add: example_store_def)
  have p: "post example_store = [task_a, task_b, task_c, task_d]" "post_id_seq example_store = 5"
    by (simp_all add: example_store_def)
  have f: "[r \<leftarrow> post example_store. post_id r = 1 \<and> post_user_id r = 7] = [task_a]"
    by (simp add: example_defs)
  have m: "map (\<lambda>r. if post_id r = 1 \<and> post_user_id r = 7
                    then r\<lparr>post_completestatus := None, post_currentstatus := None\<rparr>
                    else r) (post example_store) =
           [task_a\<lparr>post_completestatus := None, post_currentstatus := None\<rparr>,
            task_b, task_c, task_d]"
    by (simp add: example_defs)
  note w1 = flags_written_verbatim [of 7 "Some ''call mum''" "Some ''family''" None None
              "Some 9000" None example_store "Some 1" 1]
  note w2 = flags_written_verbatim [of 7 "Some ''call mum''" "Some ''family''" None None
              "Some 9000" None example_store "Some 1" 1, THEN conjunct2, THEN conjunct2,
              THEN conjunct2, THEN conjunct2, THEN conjunct2, THEN conjunct2, THEN conjunct2,
              THEN conjunct2, rule_format, of task_a "[]"]
  have c1: "status (fst (post_tasks 7 (Some ''call mum'') (Some ''family'') None None (Some 9000)
                  None example_store)) \<noteq> 400"
    using w1 [THEN conjunct1] v by blast
  note c2 = w1 [THEN conjunct2, THEN conjunct1, rule_format, OF conjI, OF v a, unfolded p,
              simplified]
  note c3 = w1 [THEN conjunct2, THEN conjunct2, THEN conjunct2, THEN conjunct2,
              THEN conjunct2, THEN conjunct1, rule_format, OF a, unfolded m]
  note c4 = w2 [OF conjI, OF a f]
  show ?thesis
    using v a f c1 c2 c3 c4 by blast
qed

section \<open>Validation comes first\<close>

text \<open>
  Claim C10. Register, login, task creation and task edit answer 400 when a required
  field is empty, and whenever one of them answers 400 the state of the store after the
  call is the state before it, the count of statements sent included: no statement was
  sent.
\<close>

theorem validation_before_store:
  "(falsy email \<or> falsy password \<or> falsy firstname \<or> falsy lastname \<longrightarrow>
      status (fst (register email password firstname lastname salt db)) = 400) \<and>
   (status (fst (register email password firstname lastname salt db)) = 400 \<longrightarrow>
      snd (register email password firstname lastname salt db) = db \<and>
      issued (snd (register email password firstname lastname salt db)) = issued db) \<and>
   (falsy email \<or> falsy password \<longrightarrow>
      status (fst (login email password jwtSecretKey clock db)) = 400) \<and>
   (status (fst (login email password jwtSecretKey clock db)) = 400 \<longrightarrow>
      snd (login email password jwtSecretKey clock db) = db \<and>
      issued (snd (login email password jwtSecretKey clock db)) = issued db) \<and>
   (falsy task \<or> falsy type \<or> falsy_time remindertime \<longrightarrow>
      status (fst (post_tasks userId task type timeofentry completestatus remindertime
                     currentstatus db)) = 400) \<and>
   (status (fst (post_tasks userId task type timeofentry completestatus remindertime
                   currentstatus db)) = 400 \<longrightarrow>
      snd (post_tasks userId task type timeofentry completestatus remindertime
             currentstatus db) = db \<and>
      issued (snd (post_tasks userId task type timeofentry completestatus remindertime
                     currentstatus db)) = issued db) \<and>
   (falsy editedtask \<longrightarrow>
      status (fst (put_tasks userId id' editedtask editedtype db)) = 400) \<and>
   (status (fst (put_tasks userId id' editedtask editedtype db)) = 400 \<longrightarrow>
      snd (put_tasks userId id' editedtask editedtype db) = db \<and>
      issued (snd (put_tasks userId id' editedtask editedtype db)) = issued db)"
proof -
  have r1: "falsy email \<or> falsy password \<or> falsy firstname \<or> falsy lastname \<longrightarrow>
      status (fst (register email password firstname lastname salt db)) = 400"
    by (simp add: register_invalid)
  have r2: "status (fst (register email password firstname lastname salt db)) = 400 \<longrightarrow>
      snd (register email password firstname lastname salt db) = db"
    by (simp add: register_def split: prod.splits option.splits if_splits)
  have l1: "falsy email \<or> falsy password \<longrightarrow>
      status (fst (login email password jwtSecretKey clock db)) = 400"
    by (simp add: login_invalid)
  have l2: "status (fst (login email password jwtSecretKey clock db)) = 400 \<longrightarrow>
      snd (login email password jwtSecretKey clock db) = db"
    by (simp add: login_def split: prod.splits option.splits list.splits if_splits)
  have p1: "falsy task \<or> falsy type \<or> falsy_time remindertime \<longrightarrow>
      status (fst (post_tasks userId task type timeofentry completestatus remindertime
                     currentstatus db)) = 400"
    by (simp add: post_tasks_invalid)
  have p2: "status (fst (post_tasks userId task type timeofentry completestatus remindertime
                   currentstatus db)) = 400 \<longrightarrow>
      snd (post_tasks userId task type timeofentry completestatus remindertime
             currentstatus db) = db"
    by (simp add: post_tasks_def split: prod.splits option.splits if_splits)
  have e1: "falsy editedtask \<longrightarrow>
      status (fst (put_tasks userId id' editedtask editedtype db)) = 400"
    by (simp add: put_tasks_invalid)
  have e2: "status (fst (put_tasks userId id' editedtask editedtype db)) = 400 \<longrightarrow>
      snd (put_tasks userId id' editedtask editedtype db) = db"
    by (simp add: put_tasks_def split: prod.splits option.splits if_splits)
  show ?thesis
    using r1 r2 l1 l2 p1 p2 e1 e2 by simp
qed

theorem validation_before_store_witness:
  "falsy None \<and> falsy (Some []) \<and>
   status (fst (register None (Some ''pw123'') (Some ''Carol'') (Some ''C'') ''salt-c''
                  example_store)) = 400 \<and>
   snd (register None (Some ''pw123'') (Some ''Carol'') (Some ''C'') ''salt-c'' example_store) =
     example_store \<and>
   status (fst (login None (Some ''pw123'') (Some ''k3y'') 500 example_store)) = 400 \<and>
   snd (login None (Some ''pw123'') (Some ''k3y'') 500 example_store) = example_store \<and>
   status (fst (post_tasks 7 (Some ''call mum'') (Some []) None None (Some 9000) None
                  example_store)) = 400 \<and>
   snd (post_tasks 7 (Some ''call mum'') (Some []) None None (Some 9000) None example_store) =
     example_store \<and>
   status (fst (put_tasks 7 (Some 1) None (Some ''work'') example_store)) = 400 \<and>
   snd (put_tasks 7 (Some 1) None (Some ''work'') example_store) = example_store \<and>
   issued (snd (put_tasks 7 (Some 1) None (Some ''work'') example_store)) = 0"
proof -
  have v: "falsy None" "falsy (Some [])"
    by (simp_all add: falsy_def)
  have i: "issued example_store = 0"
    by (simp add: example_store_def)
  note w = validation_before_store [where email = None and password = "Some ''pw123''"
             and firstname = "Some ''Carol''" and lastname = "Some ''C''" and salt = "''salt-c''"
             and db = example_store and jwtSecretKey = "Some ''k3y''" and clock = 500
             and task = "Some ''call mum''" and type = "Some []" and remindertime = "Some 9000"
             and userId = 7 and timeofentry = None and completestatus = None
             and currentstatus = None and editedtask = None and id' = "Some 1"
             and editedtype = "Some ''work''"]
  show ?thesis
    using v i w by simp
qed

end
